theory Spec2Isabelle
  imports Main "HOL-Library.AList" "HOL-Library.Word"
begin

section \<open>Go values shared by the packages\<close>

text \<open>
  A Go \<open>string\<close> and the contents of a \<open>[]byte\<close> are byte lists. A byte slice that is
  re-sliced or pooled is its backing array, seen from the slice's first element, with the
  slice's length: \<open>cap\<close> is the length of that array and the visible bytes are its first
  \<open>slen\<close> elements.
\<close>

record slice =
  backing :: string
  slen :: nat

definition cap :: "slice \<Rightarrow> nat" where
  "cap b = length (backing b)"

definition contents :: "slice \<Rightarrow> string" where
  "contents b = take (slen b) (backing b)"

text \<open>\<open>make([]byte, n)\<close> and \<open>make([]byte, 0, n)\<close>: a zeroed array of n bytes.\<close>

definition make_bytes :: "nat \<Rightarrow> nat \<Rightarrow> slice" where
  "make_bytes l c = \<lparr>backing = replicate c (CHR 0x00), slen = l\<rparr>"

text \<open>\<open>b[:0]\<close> keeps the array and shows none of it.\<close>

definition reslice0 :: "slice \<Rightarrow> slice" where
  "reslice0 b = b\<lparr>slen := 0\<rparr>"

text \<open>
  \<open>append(b, xs...)\<close> writes in place while the array has room and moves to a new array
  otherwise. The size of a new array is the runtime's choice; the model records the least
  sufficient one.
\<close>

definition append_bytes :: "slice \<Rightarrow> string \<Rightarrow> slice" where
  "append_bytes b xs =
     (let vis = contents b @ xs in
      if length vis \<le> cap b
      then \<lparr>backing = vis @ drop (length vis) (backing b), slen = length vis\<rparr>
      else \<lparr>backing = vis, slen = length vis\<rparr>)"

text \<open>
  A \<open>map[string]T\<close> is an association list with one entry per key; a nil map is \<open>None\<close>
  where the code tells the two apart. Reading a missing key gives the zero value.
\<close>

type_synonym 'v gomap = "(string \<times> 'v) list"

definition map_get :: "string gomap option \<Rightarrow> string \<Rightarrow> string" where
  "map_get m k =
     (case m of None \<Rightarrow> ''''
      | Some kvs \<Rightarrow> (case map_of kvs k of None \<Rightarrow> '''' | Some v \<Rightarrow> v))"

text \<open>\<open>for k := range m { delete(m, k) }\<close>\<close>

definition delete_all_keys :: "'v gomap \<Rightarrow> 'v gomap" where
  "delete_all_keys m = fold AList.delete (map fst m) m"

text \<open>Run-time panics and \<open>panic(msg)\<close> calls.\<close>

datatype panic = IndexOutOfRange | NilDereference | NilFuncCall | PanicMsg string

section \<open>Package http: Request\<close>

record Request =
  Method :: string
  Path :: string
  Proto :: string
  ContentType :: string
  ContentLength :: string
  UserAgent :: string
  Accept :: string
  Host :: string
  Connection :: string
  ExtraHeaders :: "string gomap option"
  Query :: "string gomap option"
  Body :: slice

section \<open>Package http: FDContext\<close>

text \<open>
  \<open>paramKeys\<close> and \<open>paramValues\<close> are the fixed arrays \<open>[4]string\<close>, kept as lists of
  four strings; \<open>request\<close> is a pointer and may be nil.
\<close>

record FDContext =
  fd :: int
  request :: "Request option"
  paramKeys :: "string list"
  paramValues :: "string list"
  paramCount :: int
  paramMapOverflow :: "string gomap option"
  responseBuf :: slice
  responseHeaders :: "string gomap option"
  statusCode :: int
  aborted :: bool

definition NewFDContext :: "int \<Rightarrow> Request option \<Rightarrow> FDContext" where
  "NewFDContext f req =
     \<lparr>fd = f, request = req,
      paramKeys = replicate 4 '''', paramValues = replicate 4 '''', paramCount = 0,
      paramMapOverflow = None,
      responseBuf = make_bytes 0 4096,
      responseHeaders = None, statusCode = 200, aborted = False\<rparr>"

text \<open>The zero value \<open>&http.FDContext{}\<close> that the engine's context pool mints.\<close>

definition zeroFDContext :: FDContext where
  "zeroFDContext =
     \<lparr>fd = 0, request = None,
      paramKeys = replicate 4 '''', paramValues = replicate 4 '''', paramCount = 0,
      paramMapOverflow = None,
      responseBuf = \<lparr>backing = [], slen = 0\<rparr>,
      responseHeaders = None, statusCode = 0, aborted = False\<rparr>"

text \<open>
  \<open>Param\<close>: the loop \<open>for i := 0; i < c.paramCount && i < 4; i++\<close> over the inline
  arrays, then the overflow map.
\<close>

fun param_scan :: "FDContext \<Rightarrow> string \<Rightarrow> nat list \<Rightarrow> string option" where
  "param_scan c key [] = None"
| "param_scan c key (i # is) =
     (if paramKeys c ! i = key then Some (paramValues c ! i) else param_scan c key is)"

definition Param :: "FDContext \<Rightarrow> string \<Rightarrow> string" where
  "Param c key =
     (case param_scan c key [0 ..< nat (min (paramCount c) 4)] of
        Some v \<Rightarrow> v
      | None \<Rightarrow> (if paramMapOverflow c \<noteq> None then map_get (paramMapOverflow c) key else ''''))"

definition SetParam :: "FDContext \<Rightarrow> string \<Rightarrow> string \<Rightarrow> panic + FDContext" where
  "SetParam c key val =
     (if paramCount c < 4 then
        (if paramCount c < 0 then Inl IndexOutOfRange
         else Inr (c\<lparr>paramKeys := (paramKeys c)[nat (paramCount c) := key],
                     paramValues := (paramValues c)[nat (paramCount c) := val],
                     paramCount := paramCount c + 1\<rparr>))
      else
        Inr (c\<lparr>paramMapOverflow :=
                  Some (AList.update key val
                          (case paramMapOverflow c of None \<Rightarrow> [] | Some m \<Rightarrow> m))\<rparr>))"

definition SetHeader :: "FDContext \<Rightarrow> string \<Rightarrow> string \<Rightarrow> FDContext" where
  "SetHeader c key val =
     c\<lparr>responseHeaders :=
         Some (AList.update key val
                 (case responseHeaders c of None \<Rightarrow> [] | Some m \<Rightarrow> m))\<rparr>"

definition Status :: "FDContext \<Rightarrow> int \<Rightarrow> FDContext" where
  "Status c code = c\<lparr>statusCode := code\<rparr>"

definition IsAborted :: "FDContext \<Rightarrow> bool" where
  "IsAborted c = aborted c"

definition Abort :: "FDContext \<Rightarrow> FDContext" where
  "Abort c = c\<lparr>aborted := True\<rparr>"

definition Reset :: "FDContext \<Rightarrow> int \<Rightarrow> Request option \<Rightarrow> FDContext" where
  "Reset c f req =
     c\<lparr>fd := f, request := req,
       paramCount := 0,
       paramMapOverflow := map_option delete_all_keys (paramMapOverflow c),
       responseHeaders := map_option delete_all_keys (responseHeaders c),
       responseBuf := reslice0 (responseBuf c),
       statusCode := 200,
       aborted := False\<rparr>"

subsection \<open>Response emission\<close>

definition CRLF :: string where
  "CRLF = [CHR 0x0D, CHR 0x0A]"

text \<open>
  \<open>appendInt\<close>. Go's \<open>int\<close> has 64 bits, so negating the least value gives it back; the
  first loop counts the digits of \<open>tmp\<close>, the second fills them from the right.
\<close>

definition neg64 :: "int \<Rightarrow> int" where
  "neg64 i = (if i = - (2 ^ 63) then i else - i)"

function count_digits :: "int \<Rightarrow> nat" where
  "count_digits tmp = (if tmp > 0 then Suc (count_digits (tmp div 10)) else 0)"
  by pat_completeness auto
termination
  by (relation "measure nat") auto

fun fill_digits :: "int \<Rightarrow> nat \<Rightarrow> string" where
  "fill_digits i 0 = []"
| "fill_digits i (Suc j) = fill_digits (i div 10) j @ [''0123456789'' ! nat (i mod 10)]"

definition appendInt :: "slice \<Rightarrow> int \<Rightarrow> slice" where
  "appendInt b i =
     (if i = 0 then append_bytes b ''0''
      else
        let b1 = (if i < 0 then append_bytes b ''-'' else b);
            i1 = (if i < 0 then neg64 i else i);
            digits = count_digits i1
        in append_bytes b1 (fill_digits i1 digits))"

definition statusText :: "int \<Rightarrow> string" where
  "statusText code =
     (if code = 200 then ''OK''
      else if code = 201 then ''Created''
      else if code = 400 then ''Bad Request''
      else if code = 404 then ''Not Found''
      else if code = 500 then ''Internal Server Error''
      else ''Unknown'')"

text \<open>
  The part every emitter starts with: the buffer is cut to length zero and the status
  line is appended.
\<close>

definition status_line :: "slice \<Rightarrow> int \<Rightarrow> slice" where
  "status_line b code =
     (let b0 = reslice0 b;
          b1 = append_bytes b0 ''HTTP/1.1 '';
          b2 = appendInt b1 code;
          b3 = append_bytes b2 '' '';
          b4 = append_bytes b3 (statusText code)
      in append_bytes b4 CRLF)"

definition length_and_body :: "slice \<Rightarrow> string \<Rightarrow> slice" where
  "length_and_body b body =
     (let b1 = append_bytes b ''Content-Length: '';
          b2 = appendInt b1 (int (length body));
          b3 = append_bytes b2 (CRLF @ CRLF)
      in append_bytes b3 body)"

text \<open>
  \<open>writeResponse\<close>, the last call of every emitter, hands the buffer's contents to the
  descriptor and changes no field of the context; the emitters drop its error. The
  emitters are therefore the context with its new buffer.
\<close>

definition String :: "FDContext \<Rightarrow> int \<Rightarrow> string \<Rightarrow> FDContext" where
  "String c code s =
     c\<lparr>responseBuf :=
         length_and_body
           (append_bytes (status_line (responseBuf c) code) (''Content-Type: text/plain'' @ CRLF))
           s\<rparr>"

definition Bytes :: "FDContext \<Rightarrow> int \<Rightarrow> string \<Rightarrow> FDContext" where
  "Bytes c code data =
     c\<lparr>responseBuf :=
         length_and_body
           (append_bytes (status_line (responseBuf c) code)
              (''Content-Type: application/octet-stream'' @ CRLF))
           data\<rparr>"

definition Data :: "FDContext \<Rightarrow> int \<Rightarrow> string \<Rightarrow> string \<Rightarrow> FDContext" where
  "Data c code contentType data =
     c\<lparr>responseBuf :=
         length_and_body
           (append_bytes
              (append_bytes
                 (append_bytes (status_line (responseBuf c) code) ''Content-Type: '')
                 contentType)
              CRLF)
           data\<rparr>"

definition JSON_bytes :: "FDContext \<Rightarrow> int \<Rightarrow> string \<Rightarrow> FDContext" where
  "JSON_bytes c code data =
     c\<lparr>responseBuf :=
         length_and_body
           (append_bytes (status_line (responseBuf c) code)
              (''Content-Type: application/json'' @ CRLF))
           data\<rparr>"

text \<open>
  \<open>JSON(code, v)\<close>: \<open>json.Marshal(v)\<close> belongs to the standard library, so the emitter
  takes its result, \<open>None\<close> for an error. On an error it calls
  \<open>Error(500, "Failed to marshal JSON")\<close>, which is \<open>JSON\<close> of a two-entry map whose
  encoding is fixed.
\<close>

definition marshal_failed_body :: string where
  "marshal_failed_body =
     ''{'' @ [CHR 0x22] @ ''code'' @ [CHR 0x22] @ '':500,'' @ [CHR 0x22] @ ''message''
       @ [CHR 0x22] @ '':'' @ [CHR 0x22] @ ''Failed to marshal JSON'' @ [CHR 0x22] @ ''}''"

definition JSON :: "FDContext \<Rightarrow> int \<Rightarrow> string option \<Rightarrow> FDContext" where
  "JSON c code marshalled =
     (case marshalled of
        None \<Rightarrow> JSON_bytes c 500 marshal_failed_body
      | Some data \<Rightarrow> JSON_bytes c code data)"

section \<open>Package http: the request parser\<close>

text \<open>
  \<open>bytes.IndexByte\<close> and \<open>bytes.Index\<close>: the position of the first occurrence, \<open>None\<close>
  where the library returns \<open>-1\<close>.
\<close>

fun IndexByte :: "string \<Rightarrow> char \<Rightarrow> nat option" where
  "IndexByte [] c = None"
| "IndexByte (x # xs) c = (if x = c then Some 0 else map_option Suc (IndexByte xs c))"

fun Index :: "string \<Rightarrow> string \<Rightarrow> nat option" where
  "Index [] sep = (if sep = [] then Some 0 else None)"
| "Index (x # xs) sep =
     (if take (length sep) (x # xs) = sep then Some 0 else map_option Suc (Index xs sep))"

text \<open>
  \<open>bytes.TrimSpace\<close> removes leading and trailing white space as Unicode defines it, on
  the UTF-8 reading of the bytes: the six ASCII characters, U+0085 and U+00A0 (two bytes
  each), and U+1680, U+2000 to U+200A, U+2028, U+2029, U+202F, U+205F and U+3000 (three
  bytes each).
\<close>

definition asciiSpace :: "char \<Rightarrow> bool" where
  "asciiSpace c \<longleftrightarrow> c \<in> {CHR 0x09, CHR 0x0A, CHR 0x0B, CHR 0x0C, CHR 0x0D, CHR 0x20}"

definition space_runes :: "string list" where
  "space_runes =
     [[CHR 0xC2, CHR 0x85], [CHR 0xC2, CHR 0xA0], [CHR 0xE1, CHR 0x9A, CHR 0x80],
      [CHR 0xE2, CHR 0x80, CHR 0x80], [CHR 0xE2, CHR 0x80, CHR 0x81],
      [CHR 0xE2, CHR 0x80, CHR 0x82], [CHR 0xE2, CHR 0x80, CHR 0x83],
      [CHR 0xE2, CHR 0x80, CHR 0x84], [CHR 0xE2, CHR 0x80, CHR 0x85],
      [CHR 0xE2, CHR 0x80, CHR 0x86], [CHR 0xE2, CHR 0x80, CHR 0x87],
      [CHR 0xE2, CHR 0x80, CHR 0x88], [CHR 0xE2, CHR 0x80, CHR 0x89],
      [CHR 0xE2, CHR 0x80, CHR 0x8A], [CHR 0xE2, CHR 0x80, CHR 0xA8],
      [CHR 0xE2, CHR 0x80, CHR 0xA9], [CHR 0xE2, CHR 0x80, CHR 0xAF],
      [CHR 0xE2, CHR 0x81, CHR 0x9F], [CHR 0xE3, CHR 0x80, CHR 0x80]]"

text \<open>The number of bytes of the white-space character a byte list starts with, or 0.\<close>

definition leading_space :: "string \<Rightarrow> nat" where
  "leading_space s =
     (case s of
        [] \<Rightarrow> 0
      | c # _ \<Rightarrow>
          (if asciiSpace c then 1
           else (case filter (\<lambda>r. take (length r) s = r) space_runes of
                   [] \<Rightarrow> 0
                 | r # _ \<Rightarrow> length r)))"

function trim_left :: "string \<Rightarrow> string" where
  "trim_left s = (if leading_space s = 0 then s else trim_left (drop (leading_space s) s))"
  by pat_completeness auto

termination
proof (relation "measure length")
  fix s :: string
  assume "leading_space s \<noteq> 0"
  then have "s \<noteq> []"
    by (auto simp: leading_space_def)
  with \<open>leading_space s \<noteq> 0\<close>
  show "(drop (leading_space s) s, s) \<in> measure length"
    by simp
qed simp

definition trailing_space :: "string \<Rightarrow> nat" where
  "trailing_space s =
     (if s = [] then 0
      else if asciiSpace (last s) then 1
      else (case filter (\<lambda>r. length r \<le> length s \<and> drop (length s - length r) s = r)
                   space_runes of
              [] \<Rightarrow> 0
            | r # _ \<Rightarrow> length r))"

function trim_right :: "string \<Rightarrow> string" where
  "trim_right s =
     (if trailing_space s = 0 then s else trim_right (take (length s - trailing_space s) s))"
  by pat_completeness auto
termination
proof (relation "measure length")
  fix s :: string
  assume "trailing_space s \<noteq> 0"
  then have "s \<noteq> []"
    by (auto simp: trailing_space_def)
  with \<open>trailing_space s \<noteq> 0\<close>
  show "(take (length s - trailing_space s) s, s) \<in> measure length"
    by simp
qed simp

definition TrimSpace :: "string \<Rightarrow> string" where
  "TrimSpace s = trim_right (trim_left s)"

text \<open>\<open>Request.SetHeader\<close>, \<open>Request.Reset\<close> and the package's request pool.\<close>

definition Request_SetHeader :: "Request \<Rightarrow> string \<Rightarrow> string \<Rightarrow> Request" where
  "Request_SetHeader r key val =
     (if key = ''Content-Type'' then r\<lparr>ContentType := val\<rparr>
      else if key = ''Content-Length'' then r\<lparr>ContentLength := val\<rparr>
      else if key = ''User-Agent'' then r\<lparr>UserAgent := val\<rparr>
      else if key = ''Accept'' then r\<lparr>Accept := val\<rparr>
      else if key = ''Host'' then r\<lparr>Host := val\<rparr>
      else if key = ''Connection'' then r\<lparr>Connection := val\<rparr>
      else r\<lparr>ExtraHeaders :=
               Some (AList.update key val
                       (case ExtraHeaders r of None \<Rightarrow> [] | Some m \<Rightarrow> m))\<rparr>)"

definition Request_Reset :: "Request \<Rightarrow> Request" where
  "Request_Reset r =
     r\<lparr>Method := [], Path := [], Proto := [],
       ContentType := [], ContentLength := [], UserAgent := [],
       Accept := [], Host := [], Connection := [],
       ExtraHeaders := map_option delete_all_keys (ExtraHeaders r),
       Query := map_option delete_all_keys (Query r),
       Body := reslice0 (Body r)\<rparr>"

text \<open>The value \<open>requestPool.New\<close> mints: \<open>&Request{Body: make([]byte, 0, 1024)}\<close>.\<close>

definition new_Request :: Request where
  "new_Request =
     \<lparr>Method = [], Path = [], Proto = [],
      ContentType = [], ContentLength = [], UserAgent = [],
      Accept = [], Host = [], Connection = [],
      ExtraHeaders = None, Query = None, Body = make_bytes 0 1024\<rparr>"

definition AcquireRequest :: "Request list \<Rightarrow> Request \<times> Request list" where
  "AcquireRequest pool = (case pool of [] \<Rightarrow> (new_Request, []) | r # rest \<Rightarrow> (r, rest))"

definition ReleaseRequest :: "Request \<Rightarrow> Request list \<Rightarrow> Request list" where
  "ReleaseRequest req pool = Request_Reset req # pool"

text \<open>
  \<open>parseHeaders\<close>: one line per turn of the loop; a line is cut at its first colon when
  that colon is not the line's first byte.
\<close>

definition header_line :: "string \<Rightarrow> nat \<Rightarrow> string" where
  "header_line data lineEnd =
     (let line = take lineEnd data
      in if length line > 0 \<and> last line = CHR 0x0D then butlast line else line)"

definition set_header_of_line :: "Request \<Rightarrow> string \<Rightarrow> Request" where
  "set_header_of_line req line =
     (case IndexByte line CHR '':'' of
        None \<Rightarrow> req
      | Some colon \<Rightarrow>
          (if colon > 0
           then Request_SetHeader req (TrimSpace (take colon line))
                  (TrimSpace (drop (colon + 1) line))
           else req))"

function parseHeaders :: "Request \<Rightarrow> string \<Rightarrow> Request" where
  "parseHeaders req data =
     (if length data > 0 then
        (let lineEnd = (case IndexByte data (CHR 0x0A) of None \<Rightarrow> length data | Some n \<Rightarrow> n);
             line = header_line data lineEnd
         in if length line = 0 then req
            else
              (let req1 = set_header_of_line req line
               in if lineEnd = length data then req1
                  else parseHeaders req1 (drop (lineEnd + 1) data)))
      else req)"
  by pat_completeness auto
termination
  by (relation "measure (\<lambda>(req, data). length data)") auto

text \<open>
  \<open>parseQuery\<close>: \<open>bytes.Split\<close> on \<open>&\<close> gives every piece, one empty piece for an empty
  input; \<open>bytes.SplitN(pair, "=", 2)\<close> cuts at the first \<open>=\<close>.
\<close>

fun Split :: "string \<Rightarrow> char \<Rightarrow> string list" where
  "Split [] c = [[]]"
| "Split (x # xs) c =
     (if x = c then [] # Split xs c
      else (case Split xs c of [] \<Rightarrow> [[x]] | y # ys \<Rightarrow> (x # y) # ys))"

definition SplitN2 :: "string \<Rightarrow> char \<Rightarrow> string list" where
  "SplitN2 s c =
     (case IndexByte s c of None \<Rightarrow> [s] | Some i \<Rightarrow> [take i s, drop (i + 1) s])"

definition query_pair :: "string \<Rightarrow> string gomap \<Rightarrow> string gomap" where
  "query_pair pair q =
     (let kv = SplitN2 pair CHR ''=''
      in if length kv = 2 then AList.update (kv ! 0) (kv ! 1) q
         else if length kv = 1 then AList.update (kv ! 0) [] q
         else q)"

definition parseQuery :: "Request \<Rightarrow> string \<Rightarrow> nat \<Rightarrow> Request \<times> string" where
  "parseQuery req pth idx =
     (let queryStr = drop (idx + 1) pth;
          q0 = (case Query req of None \<Rightarrow> [] | Some q \<Rightarrow> q)
      in (req\<lparr>Query := Some (fold query_pair (Split queryStr CHR ''&'') q0)\<rparr>, take idx pth))"

text \<open>
  \<open>ParseRequest\<close> takes the package's request pool with the input and returns it with
  the result. \<open>Method\<close>, \<open>Path\<close> and \<open>Proto\<close> are views of the input; the model holds their
  bytes.
\<close>

datatype error = ErrInvalidRequest

datatype parse_result = Parsed Request | Failed error | ParsePanic panic

definition parse_body :: "Request \<Rightarrow> string \<Rightarrow> Request" where
  "parse_body req rest =
     (if length rest > 0 then req\<lparr>Body := append_bytes (reslice0 (Body req)) rest\<rparr> else req)"

definition parse_after_line ::
  "Request \<Rightarrow> string \<Rightarrow> Request list \<Rightarrow> parse_result \<times> Request list" where
  "parse_after_line req data pool =
     (case Index data [CHR 0x0D, CHR 0x0A, CHR 0x0D, CHR 0x0A] of
        None \<Rightarrow>
          (case Index data [CHR 0x0A, CHR 0x0A] of
             None \<Rightarrow> (Failed ErrInvalidRequest, ReleaseRequest req pool)
           | Some headerEnd \<Rightarrow> (Parsed (parse_body req (drop (headerEnd + 2) data)), pool))
      | Some headerEnd \<Rightarrow>
          (Parsed (parse_body (parseHeaders req (take headerEnd data))
                     (drop (headerEnd + 4) data)), pool))"

definition ParseRequest :: "Request list \<Rightarrow> string \<Rightarrow> parse_result \<times> Request list" where
  "ParseRequest pool0 data =
     (case AcquireRequest pool0 of (req, pool) \<Rightarrow>
      (case IndexByte data (CHR 0x0A) of
         None \<Rightarrow> (Failed ErrInvalidRequest, ReleaseRequest req pool)
       | Some lineEnd \<Rightarrow>
           (let line0 = take lineEnd data
            in if length line0 = 0 then (ParsePanic IndexOutOfRange, pool)
               else
                 (let line = (if last line0 = CHR 0x0D then butlast line0 else line0)
                  in case IndexByte line CHR '' '' of
                       None \<Rightarrow> (Failed ErrInvalidRequest, ReleaseRequest req pool)
                     | Some sp1 \<Rightarrow>
                         (case IndexByte (drop (sp1 + 1) line) CHR '' '' of
                            None \<Rightarrow> (Failed ErrInvalidRequest, ReleaseRequest req pool)
                          | Some sp2' \<Rightarrow>
                              (let sp2 = sp2' + (sp1 + 1);
                                   req1 = req\<lparr>Method := take sp1 line,
                                               Path := drop (sp1 + 1) (take sp2 line),
                                               Proto := drop (sp2 + 1) line\<rparr>;
                                   req2 = (case IndexByte (Path req1) CHR ''?'' of
                                             None \<Rightarrow> req1
                                           | Some idx \<Rightarrow>
                                               (case parseQuery req1 (Path req1) idx of
                                                  (r, pth) \<Rightarrow> r\<lparr>Path := pth\<rparr>))
                               in parse_after_line req2 (drop (lineEnd + 1) data) pool))))))"

text \<open>Requests on which the claims about the parser are tried.\<close>

definition LF :: string where
  "LF = [CHR 0x0A]"

definition bare_lf_request :: string where
  "bare_lf_request = ''GET / HTTP/1.1'' @ LF @ ''Host: x'' @ LF @ LF"

definition crlf_request :: string where
  "crlf_request = ''GET / HTTP/1.1'' @ CRLF @ ''Host: x'' @ CRLF @ CRLF"

section \<open>Package router: the radix tree\<close>

text \<open>
  A \<open>HandlerFunc\<close> of the router is a function value that may be nil; the router only
  stores and returns it, so it is the number that identifies the function, or \<open>None\<close>. A node's \<open>handlers\<close> map may be nil as well. The
  tree is built by mutation through pointers, and no node is reachable twice, so a node is
  the value of its fields and of its children.
\<close>

datatype nodeType = static | param | catchAll

type_synonym handler_id = nat

datatype node =
  Node (path: string) (indices: string) (children: "node list")
       (handlers: "handler_id option gomap option") (priority: "32 word")
       (nType: nodeType) (paramName: string)

record RadixRouter =
  root :: "node option"

text \<open>\<open>&node{}\<close>\<close>

definition zero_node :: "node" where
  "zero_node = Node [] [] [] None 0 static []"

definition NewRadixRouter :: "RadixRouter" where
  "NewRadixRouter = \<lparr>root = Some (Node [] [] [] (Some []) 0 static [])\<rparr>"

text \<open>Assignments to one field of a node.\<close>

fun set_path :: "node \<Rightarrow> string \<Rightarrow> node" where
  "set_path (Node p i cs hs pr t pn) p' = Node p' i cs hs pr t pn"

fun set_indices :: "node \<Rightarrow> string \<Rightarrow> node" where
  "set_indices (Node p i cs hs pr t pn) i' = Node p i' cs hs pr t pn"

fun set_children :: "node \<Rightarrow> node list \<Rightarrow> node" where
  "set_children (Node p i cs hs pr t pn) cs' = Node p i cs' hs pr t pn"

fun set_nType :: "node \<Rightarrow> nodeType \<Rightarrow> node" where
  "set_nType (Node p i cs hs pr t pn) t' = Node p i cs hs pr t' pn"

text \<open>\<open>n.priority++\<close> on a \<open>uint32\<close>\<close>

fun incr_priority :: "node \<Rightarrow> node" where
  "incr_priority (Node p i cs hs pr t pn) = Node p i cs hs (pr + 1) t pn"

text \<open>\<open>if n.handlers == nil { n.handlers = make(...) }; n.handlers[method] = handler\<close>\<close>

fun set_handler :: "node \<Rightarrow> string \<Rightarrow> handler_id option \<Rightarrow> node" where
  "set_handler (Node p i cs hs pr t pn) method handler =
     Node p i cs (Some (AList.update method handler (case hs of None \<Rightarrow> [] | Some m \<Rightarrow> m)))
       pr t pn"

fun addChild :: "node \<Rightarrow> node \<Rightarrow> node" where
  "addChild (Node p i cs hs pr t pn) child = Node p i (cs @ [child]) hs pr t pn"

text \<open>\<open>n.handlers[method]\<close>: nil for a nil map, a missing method and a nil handler.\<close>

definition handler_of :: "node \<Rightarrow> string \<Rightarrow> handler_id option" where
  "handler_of n method =
     (case handlers n of
        None \<Rightarrow> None
      | Some m \<Rightarrow> (case map_of m method of None \<Rightarrow> None | Some h \<Rightarrow> h))"

fun longestCommonPrefix :: "string \<Rightarrow> string \<Rightarrow> nat" where
  "longestCommonPrefix (x # xs) (y # ys) = (if x = y then Suc (longestCommonPrefix xs ys) else 0)"
| "longestCommonPrefix _ _ = 0"

text \<open>
  \<open>findWildcard\<close>: the first \<open>:\<close> or \<open>*\<close> starts the wildcard, which runs to the next \<open>/\<close>
  or to the end; it is not valid when a second \<open>:\<close> or \<open>*\<close> comes before that. \<open>None\<close> is
  the result \<open>("", -1, false)\<close>.
\<close>

fun wildcard_start :: "string \<Rightarrow> nat option" where
  "wildcard_start [] = None"
| "wildcard_start (c # cs) =
     (if c \<noteq> CHR '':'' \<and> c \<noteq> CHR ''*'' then map_option Suc (wildcard_start cs) else Some 0)"

fun wildcard_end :: "string \<Rightarrow> bool \<Rightarrow> nat option \<times> bool" where
  "wildcard_end [] valid = (None, valid)"
| "wildcard_end (c # cs) valid =
     (if c = CHR ''/'' then (Some 0, valid)
      else
        (case wildcard_end cs (if c = CHR '':'' \<or> c = CHR ''*'' then False else valid) of
           (e, v) \<Rightarrow> (map_option Suc e, v)))"

definition findWildcard :: "string \<Rightarrow> (string \<times> nat \<times> bool) option" where
  "findWildcard pth =
     (case wildcard_start pth of
        None \<Rightarrow> None
      | Some start \<Rightarrow>
          (case wildcard_end (drop (start + 1) pth) True of
             (Some e, valid) \<Rightarrow> Some (take (1 + e) (drop start pth), start, valid)
           | (None, valid) \<Rightarrow> Some (drop start pth, start, valid)))"

text \<open>
  The number of nodes of a tree, by which the walks down the tree end.
\<close>

fun node_count :: "node \<Rightarrow> nat" where
  "node_count (Node p i cs hs pr t pn) = Suc (sum_list (map node_count cs))"

text \<open>
  \<open>insertChild\<close>. The cursor \<open>n\<close> moves into the children it creates; the result is the
  node the call started at, with what was built below it, and the panic that stopped the
  call, if one did.
\<close>

definition apostrophe :: string where
  "apostrophe = [CHR 0x27]"

function insertChild :: "node \<Rightarrow> string \<Rightarrow> string \<Rightarrow> handler_id option \<Rightarrow> node \<times> panic option" where
  "insertChild n method pth handler =
     (case findWildcard pth of
        None \<Rightarrow> (set_handler (set_path n pth) method handler, None)
      | Some (wildcard, i, valid) \<Rightarrow>
          (if \<not> valid then
             (n, Some (PanicMsg ''only one wildcard per path segment is allowed''))
           else if length wildcard < 2 then
             (n, Some (PanicMsg ''wildcards must be named''))
           else if hd wildcard = CHR '':'' then
             (let n1 = (if i > 0 then set_path n (take i pth) else n);
                  pth1 = (if i > 0 then drop i pth else pth);
                  child = Node wildcard [] [] None 1 param (tl wildcard)
              in if length wildcard < length pth1 then
                   (case insertChild (Node [] [] [] None 1 static []) method
                           (drop (length wildcard) pth1) handler of
                      (child2, p) \<Rightarrow> (addChild n1 (addChild child child2), p))
                 else (addChild n1 (set_handler child method handler), None))
           else if i + length wildcard \<noteq> length pth then
             (n, Some (PanicMsg ''catch-all routes are only allowed at the end of the path''))
           else if length (path n) > 0 \<and> last (path n) = CHR ''/'' then
             (addChild (set_path n (take i pth))
                (Node wildcard [] [] (Some [(method, handler)]) 1 catchAll (tl wildcard)),
              None)
           else
             (n, Some (PanicMsg
                ''catch-all conflicts with existing handle for the path segment''))))"
  by pat_completeness auto
termination
  by (relation "measure (\<lambda>(n, method, pth, handler). length pth)") (auto split: if_splits)

text \<open>
  The split of an edge in \<open>addRoute\<close>: the node keeps the common prefix and gets one child
  with the rest of its path, its indices, children, handlers and type, but not its
  parameter name.
\<close>

fun split_node :: "node \<Rightarrow> nat \<Rightarrow> string \<Rightarrow> node" where
  "split_node (Node p idx cs hs pr t pn) i pth =
     Node (take i pth) [p ! i] [Node (drop i p) idx cs hs (pr - 1) t []] (Some []) pr static pn"

lemma node_count_child:
  "k < length (children n) \<Longrightarrow> node_count (children n ! k) < node_count n"
proof (cases n)
  case (Node p i cs hs pr t pn)
  assume "k < length (children n)"
  then have "cs ! k \<in> set cs"
    using Node by simp
  then have "node_count (cs ! k) \<le> sum_list (map node_count cs)"
    by (simp add: member_le_sum_list)
  then show ?thesis
    using Node by simp
qed

lemma node_count_incr_priority: "node_count (incr_priority n) = node_count n"
  by (cases n) simp

lemma nType_incr_priority: "nType (incr_priority n) = nType n"
  by (cases n) simp

lemma children_incr_priority: "children (incr_priority n) = children n"
  by (cases n) simp

lemma longestCommonPrefix_le:
  "longestCommonPrefix a b \<le> length a \<and> longestCommonPrefix a b \<le> length b"
  by (induction a b rule: longestCommonPrefix.induct) auto

lemma longestCommonPrefix_differs:
  "longestCommonPrefix a b < length a \<Longrightarrow> longestCommonPrefix a b < length b \<Longrightarrow>
     a ! longestCommonPrefix a b \<noteq> b ! longestCommonPrefix a b"
  by (induction a b rule: longestCommonPrefix.induct) auto

lemma IndexByte_Some: "IndexByte s c = Some k \<Longrightarrow> k < length s \<and> s ! k = c"
  by (induction s arbitrary: k) (auto split: if_splits)

lemma split_node_fields:
  "nType (split_node n i pth) = static"
  "indices (split_node n i pth) = [path n ! i]"
  by (cases n; simp)+

text \<open>
  The loop of \<open>addRoute\<close>. A turn of the loop either ends the call, or goes down to a
  child, or, at a node of type \<open>param\<close>, goes on at the same node with the rest of the
  path. In the last case a node with an empty path would be met again with the same path:
  the loop would not end, which the result \<open>LoopsForever\<close> stands for.
\<close>

datatype stop = Panics panic | LoopsForever

text \<open>The test \<open>n.nType == param && idxc == '/' && len(n.children) == 1\<close>\<close>

definition slash_after_param :: "node \<Rightarrow> char \<Rightarrow> bool" where
  "slash_after_param n idxc \<longleftrightarrow> nType n = param \<and> idxc = CHR ''/'' \<and> length (children n) = 1"

function addRoute_loop ::
  "node \<Rightarrow> string \<Rightarrow> string \<Rightarrow> handler_id option \<Rightarrow> node \<times> stop option" where
  "addRoute_loop n method pth handler =
     (let i = longestCommonPrefix pth (path n);
          n1 = (if i < length (path n) then split_node n i pth else n)
      in if i < length pth then
           (let pth1 = drop i pth
            in if nType n1 = param then
                 (if i = 0 then (n1, Some LoopsForever)
                  else addRoute_loop (incr_priority n1) method pth1 handler)
               else
                 (let idxc = pth1 ! 0
                  in if slash_after_param n1 idxc then
                       (case addRoute_loop (incr_priority (children n1 ! 0)) method pth1 handler of
                          (c, s) \<Rightarrow> (set_children n1 [c], s))
                     else
                       (case IndexByte (indices n1) idxc of
                          Some k \<Rightarrow>
                            (if k < length (children n1) then
                               (case addRoute_loop (children n1 ! k) method pth1 handler of
                                  (c, s) \<Rightarrow>
                                    (set_children (incr_priority n1) ((children n1)[k := c]), s))
                             else (incr_priority n1, Some (Panics IndexOutOfRange)))
                        | None \<Rightarrow>
                            (if idxc \<noteq> CHR '':'' \<and> idxc \<noteq> CHR ''*'' then
                               (case insertChild zero_node method pth1 handler of
                                  (child, p) \<Rightarrow>
                                    (addChild (set_indices n1 (indices n1 @ [idxc])) child,
                                     map_option Panics p))
                             else
                               (case insertChild n1 method pth1 handler of
                                  (n2, p) \<Rightarrow> (n2, map_option Panics p))))))
         else (set_handler n1 method handler, None))"
  by pat_completeness auto
termination
proof (relation "measures [\<lambda>(n :: node, method :: string, pth :: string, handler :: handler_id option).
                             node_count n,
                           \<lambda>(n, method, pth, handler). length pth]")
  show "wf (measures [\<lambda>(n :: node, method :: string, pth :: string, handler :: handler_id option).
                         node_count n,
                      \<lambda>(n, method, pth, handler). length pth])"
    by simp
next
  fix n n1 :: "node" and m pth pth1 :: string and handler :: "handler_id option" and i
  assume "i = longestCommonPrefix pth (path n)"
    and "n1 = (if i < length (path n) then split_node n i pth else n)"
    and "i < length pth" and "pth1 = drop i pth" and "nType n1 = param" and "i \<noteq> 0"
  then show "((incr_priority n1, m, pth1, handler), (n, m, pth, handler))
      \<in> measures [\<lambda>(n, m, pth, handler). node_count n,
                   \<lambda>(n, m, pth, handler). length pth]"
    by (auto simp: node_count_incr_priority split_node_fields split: if_splits)
next
  fix n n1 :: "node" and m pth pth1 :: string and handler :: "handler_id option" and idxc
  assume "nType n1 \<noteq> param" and "slash_after_param n1 idxc"
  then show "((incr_priority (children n1 ! 0), m, pth1, handler), (n, m, pth, handler))
      \<in> measures [\<lambda>(n, m, pth, handler). node_count n,
                   \<lambda>(n, m, pth, handler). length pth]"
    by (simp add: slash_after_param_def)
next
  fix n n1 :: "node" and m pth pth1 :: string and handler :: "handler_id option" and i idxc k
  assume i: "i = longestCommonPrefix pth (path n)"
    and n1: "n1 = (if i < length (path n) then split_node n i pth else n)"
    and il: "i < length pth" and pth1: "pth1 = drop i pth" and idxc: "idxc = pth1 ! 0"
    and k: "IndexByte (indices n1) idxc = Some k" and kl: "k < length (children n1)"
  have "\<not> i < length (path n)"
  proof
    assume less: "i < length (path n)"
    with n1 have "indices n1 = [path n ! i]"
      by (simp add: split_node_fields)
    with k have "path n ! i = idxc"
      by (auto split: if_splits)
    moreover have "idxc = pth ! i"
      using il by (simp add: idxc pth1)
    ultimately show False
      using longestCommonPrefix_differs [of pth "path n"] less il by (simp add: i)
  qed
  with n1 have "n1 = n" by simp
  with kl show "((children n1 ! k, m, pth1, handler), (n, m, pth, handler))
      \<in> measures [\<lambda>(n, m, pth, handler). node_count n,
                   \<lambda>(n, m, pth, handler). length pth]"
    by (simp add: node_count_child)
qed

definition addRoute :: "node \<Rightarrow> string \<Rightarrow> string \<Rightarrow> handler_id option \<Rightarrow> node \<times> stop option" where
  "addRoute n method pth handler =
     (if path n = [] \<and> length (children n) = 0 then
        (case insertChild n method pth handler of
           (n1, None) \<Rightarrow> (set_nType n1 static, None)
         | (n1, Some p) \<Rightarrow> (n1, Some (Panics p)))
      else addRoute_loop n method pth handler)"

text \<open>
  \<open>Add\<close> returns the router as the call leaves it and what stopped the call, if it did
  not return: the index \<open>path[0]\<close> of an empty path is out of range.
\<close>

definition Add :: "RadixRouter \<Rightarrow> string \<Rightarrow> string \<Rightarrow> handler_id option
                   \<Rightarrow> RadixRouter \<times> stop option" where
  "Add r method pth handler =
     (if pth = [] then (r, Some (Panics IndexOutOfRange))
      else if pth ! 0 \<noteq> CHR ''/'' then
        (r, Some (Panics (PanicMsg (''path must begin with '' @ apostrophe @ ''/'' @ apostrophe))))
      else
        (case root r of
           None \<Rightarrow> (r, Some (Panics NilDereference))
         | Some n \<Rightarrow>
             (case addRoute n method pth handler of
                (n1, s) \<Rightarrow> (r\<lparr>root := Some n1\<rparr>, s))))"

text \<open>
  \<open>getValue\<close>. The parameters found so far are the nil or allocated map \<open>params\<close>. The
  result of a call that returns is the handler, nil for no match, and the parameters. A
  last child that is not static is of type \<open>param\<close> or \<open>catchAll\<close>, the only other values
  a node type is ever given, so the \<open>default\<close> of the switch has no case here.
\<close>

definition found :: "node \<Rightarrow> string \<Rightarrow> string gomap option
                     \<Rightarrow> panic + (handler_id option \<times> string gomap option)" where
  "found n method params =
     (case handler_of n method of
        Some h \<Rightarrow> Inr (Some h, params)
      | None \<Rightarrow> Inr (None, None))"

text \<open>The loop \<open>for end < len(path) && path[end] != '/' { end++ }\<close>\<close>

definition segment_end :: "string \<Rightarrow> nat" where
  "segment_end pth = length (takeWhile (\<lambda>c. c \<noteq> CHR ''/'') pth)"

text \<open>\<open>path[:len(prefix)] == prefix\<close>\<close>

definition has_prefix :: "string \<Rightarrow> string \<Rightarrow> bool" where
  "has_prefix pth prefix \<longleftrightarrow> take (length prefix) pth = prefix"

function getValue :: "node \<Rightarrow> string \<Rightarrow> string \<Rightarrow> string gomap option
                      \<Rightarrow> panic + (handler_id option \<times> string gomap option)" where
  "getValue n method pth params =
     (let prefix = path n
      in if length pth > length prefix \<and> has_prefix pth prefix then
           (let pth1 = drop (length prefix) pth;
                idxc = pth1 ! 0
            in case IndexByte (indices n) idxc of
                 Some k \<Rightarrow>
                   (if k < length (children n) then getValue (children n ! k) method pth1 params
                    else Inl IndexOutOfRange)
               | None \<Rightarrow>
                   (if length (children n) > 0 then
                      (let lastChild = last (children n);
                           params1 = (case params of None \<Rightarrow> [] | Some m \<Rightarrow> m)
                       in case nType lastChild of
                            static \<Rightarrow> Inr (None, None)
                          | param \<Rightarrow>
                              (let e = segment_end pth1;
                                   params2 = Some (AList.update (paramName lastChild)
                                                     (take e pth1) params1)
                               in if e < length pth1 then
                                    (if length (children lastChild) > 0 then
                                       getValue (children lastChild ! 0) method (drop e pth1)
                                         params2
                                     else Inr (None, None))
                                  else found lastChild method params2)
                          | catchAll \<Rightarrow>
                              found lastChild method
                                (Some (AList.update (paramName lastChild) pth1 params1)))
                    else Inr (None, None)))
         else if pth \<noteq> prefix then Inr (None, None)
         else found n method params)"
  by pat_completeness auto
termination
proof (relation "measure (\<lambda>(n :: node, method :: string, pth :: string,
                             params :: string gomap option). node_count n)")
  show "wf (measure (\<lambda>(n :: node, method :: string, pth :: string,
                        params :: string gomap option). node_count n))"
    by simp
next
  fix n :: "node" and m pth pth1 :: string and params :: "string gomap option" and k
  assume "k < length (children n)"
  then show "((children n ! k, m, pth1, params), (n, m, pth, params))
      \<in> measure (\<lambda>(n, m, pth, params). node_count n)"
    by (simp add: node_count_child)
next
  fix n lastChild :: "node" and m pth pth2 :: string
    and params params2 :: "string gomap option"
  assume c: "0 < length (children n)"
    and l: "lastChild = last (children n)" and g: "0 < length (children lastChild)"
  from c l have "lastChild = children n ! (length (children n) - 1)"
    by (simp add: last_conv_nth)
  with c have "node_count lastChild < node_count n"
    by (simp add: node_count_child)
  moreover from g have "node_count (children lastChild ! 0) < node_count lastChild"
    by (simp add: node_count_child)
  ultimately show "((children lastChild ! 0, m, pth2, params2), (n, m, pth, params))
      \<in> measure (\<lambda>(n, m, pth, params). node_count n)"
    by simp
qed

definition Find :: "RadixRouter \<Rightarrow> string \<Rightarrow> string
                    \<Rightarrow> panic + (handler_id option \<times> string gomap option)" where
  "Find r method pth =
     (case root r of
        None \<Rightarrow> Inr (None, None)
      | Some n \<Rightarrow> getValue n method pth None)"

text \<open>
  Registration of a list of routes on a new router, in order, stopping where \<open>Add\<close> does
  not return.
\<close>

fun add_routes :: "RadixRouter \<Rightarrow> (string \<times> string \<times> handler_id) list
                   \<Rightarrow> RadixRouter \<times> stop option" where
  "add_routes r [] = (r, None)"
| "add_routes r ((method, pattern, h) # rest) =
     (case Add r method pattern (Some h) of
        (r1, None) \<Rightarrow> add_routes r1 rest
      | (r1, Some s) \<Rightarrow> (r1, Some s))"

definition router_of :: "(string \<times> string \<times> handler_id) list \<Rightarrow> RadixRouter" where
  "router_of routes = fst (add_routes NewRadixRouter routes)"

text \<open>
  Two registrations of the routes of \<open>TestRadixRouterPriority\<close>, in the test's order and
  in the other one.
\<close>

definition static_then_param :: "(string \<times> string \<times> handler_id) list" where
  "static_then_param = [(''GET'', ''/user/admin'', 1), (''GET'', ''/user/:id'', 2)]"

definition param_then_static :: "(string \<times> string \<times> handler_id) list" where
  "param_then_static = [(''GET'', ''/user/:id'', 2), (''GET'', ''/user/admin'', 1)]"

section \<open>Package pools: BytePool\<close>

text \<open>
  A \<open>sync.Pool\<close> is the list of the values put into it and not yet taken; \<open>Get\<close> takes
  one or, when there is none, calls \<open>New\<close>.
\<close>

record BytePool =
  pools :: "slice list list"
  sizes :: "int list"

definition defaultSizes :: "int list" where
  "defaultSizes = [512, 2048, 8192, 32768]"

definition NewBytePoolWithSizes :: "int list \<Rightarrow> BytePool" where
  "NewBytePoolWithSizes szs = \<lparr>pools = replicate (length szs) [], sizes = szs\<rparr>"

definition NewBytePool :: BytePool where
  "NewBytePool = NewBytePoolWithSizes defaultSizes"

text \<open>
  \<open>Put\<close>: the loop \<open>for i, poolSize := range bp.sizes\<close>; at the first class whose size
  is the buffer's capacity the buffer is re-sliced to \<open>buf[:capacity]\<close> and put.
\<close>

fun Put_scan :: "slice list list \<Rightarrow> int list \<Rightarrow> nat \<Rightarrow> slice \<Rightarrow> panic + slice list list" where
  "Put_scan ps [] i buf = Inr ps"
| "Put_scan ps (poolSize # rest) i buf =
     (if int (cap buf) = poolSize then
        (if i < length ps then Inr (ps[i := buf\<lparr>slen := cap buf\<rparr> # ps ! i])
         else Inl IndexOutOfRange)
      else Put_scan ps rest (Suc i) buf)"

definition Put :: "BytePool \<Rightarrow> slice \<Rightarrow> panic + BytePool" where
  "Put bp buf =
     (case Put_scan (pools bp) (sizes bp) 0 buf of
        Inl e \<Rightarrow> Inl e
      | Inr ps \<Rightarrow> Inr (bp\<lparr>pools := ps\<rparr>))"

text \<open>
  \<open>Get\<close>: the first class that is large enough gives a buffer, taken from its pool or
  made by \<open>New\<close> as \<open>make([]byte, sz)\<close>, cut to \<open>buf[:size]\<close>; a larger request is
  allocated directly.
\<close>

fun Get_scan :: "slice list list \<Rightarrow> int list \<Rightarrow> nat \<Rightarrow> int
                 \<Rightarrow> panic + (slice \<times> slice list list)" where
  "Get_scan ps [] i sz = (if sz < 0 then Inl (PanicMsg ''makeslice: len out of range'')
                            else Inr (make_bytes (nat sz) (nat sz), ps))"
| "Get_scan ps (poolSize # rest) i sz =
     (if sz \<le> poolSize then
        (if i \<ge> length ps then Inl IndexOutOfRange
         else
           (case ps ! i of
              [] \<Rightarrow> (if poolSize < 0 then Inl (PanicMsg ''makeslice: len out of range'')
                     else if sz < 0 then Inl IndexOutOfRange
                     else Inr (make_bytes (nat sz) (nat poolSize), ps))
            | buf # free \<Rightarrow>
                (if sz < 0 \<or> nat sz > cap buf then Inl IndexOutOfRange
                 else Inr (buf\<lparr>slen := nat sz\<rparr>, ps[i := free]))))
      else Get_scan ps rest (Suc i) sz)"

definition Get :: "BytePool \<Rightarrow> int \<Rightarrow> panic + (slice \<times> BytePool)" where
  "Get bp sz =
     (case Get_scan (pools bp) (sizes bp) 0 sz of
        Inl e \<Rightarrow> Inl e
      | Inr (buf, ps) \<Rightarrow> Inr (buf, bp\<lparr>pools := ps\<rparr>))"

section \<open>Package pools: SmartPool and ConnectionPool\<close>

text \<open>
  The counters are \<open>atomic.Uint64\<close>. Of a \<open>SmartPool\<close>'s fields the start time and the
  target hit rate, a time and a float that \<open>Put\<close> does not read, are left out. \<open>resetFunc\<close>
  may be nil.
\<close>

record 'a SmartPool =
  sp_pool :: "'a list"
  newFunc :: "'a"
  resetFunc :: "('a \<Rightarrow> 'a) option"
  sp_gets :: "64 word"
  sp_puts :: "64 word"
  sp_news :: "64 word"
  warmupSize :: int
  maxIdleSize :: int

text \<open>
  \<open>SmartPool.Put\<close> of a non-nil object: the object is counted, reset in place and put.
  The callers modelled here test for nil before they call.
\<close>

definition apply_reset :: "('a \<Rightarrow> 'a) option \<Rightarrow> 'a \<Rightarrow> 'a" where
  "apply_reset r obj = (case r of None \<Rightarrow> obj | Some reset \<Rightarrow> reset obj)"

definition SmartPool_Put :: "'a SmartPool \<Rightarrow> 'a \<Rightarrow> 'a SmartPool" where
  "SmartPool_Put sp obj =
     sp\<lparr>sp_puts := sp_puts sp + 1,
        sp_pool := apply_reset (resetFunc sp) obj # sp_pool sp\<rparr>"

text \<open>A \<open>ConnectionPool\<close> holds pointers to connections: their addresses.\<close>

record ConnectionPool =
  cp_pool :: "nat list"
  cp_gets :: "64 word"
  cp_puts :: "64 word"
  capacity :: int

section \<open>Package core: the engine's connections\<close>

definition StateReading :: int where "StateReading = 0"
definition StateProcessing :: int where "StateProcessing = 1"
definition StateWriting :: int where "StateWriting = 2"
definition StateKeepalive :: int where "StateKeepalive = 3"

text \<open>
  A time is a number of nanoseconds; the zero \<open>time.Time{}\<close> is 0. A \<open>Connection\<close> is
  reached through pointers from the connection table, the event handlers and the
  connection pool, so the engine's state has a store of connections by address.
\<close>

record Connection =
  conn_fd :: int
  conn_state :: int
  readBuf :: "slice option"
  readOffset :: int
  conn_request :: "Request option"
  conn_context :: "FDContext option"
  lastActive :: int
  keepAlive :: bool
  closeAfter :: bool

definition Connection_Reset :: "Connection \<Rightarrow> Connection" where
  "Connection_Reset c =
     c\<lparr>conn_fd := - 1, conn_state := StateReading, readBuf := None, readOffset := 0,
       conn_request := None, conn_context := None, lastActive := 0,
       keepAlive := False, closeAfter := False\<rparr>"

text \<open>
  The engine: the store of connections, the table \<open>connections\<close> from descriptors to
  connections, the descriptors registered with the poller, the descriptors open in the
  process, the engine's pools, and the request pool of package http, which
  \<open>http.ReleaseRequest\<close> puts into. The router, the limits and the worker pool are not
  touched by the functions below.
\<close>

record Engine =
  conns :: "nat \<rightharpoonup> Connection"
  connections :: "int \<rightharpoonup> nat"
  poller_fds :: "int set"
  open_fds :: "int set"
  contextPool :: "FDContext SmartPool"
  requestPool :: "Request SmartPool"
  bytePool :: BytePool
  connectionPool :: ConnectionPool
  http_requestPool :: "Request list"

text \<open>The reset functions \<open>NewEngine\<close> gives its context pool and its request pool.\<close>

definition engine_context_reset :: "FDContext \<Rightarrow> FDContext" where
  "engine_context_reset ctx = Reset ctx 0 None"

definition engine_request_reset :: "Request \<Rightarrow> Request" where
  "engine_request_reset req =
     req\<lparr>Method := [], Path := [], Proto := [], Body := reslice0 (Body req)\<rparr>"

text \<open>
  \<open>ConnectionPool.Put\<close> of the connection at an address: reset through the interface,
  counted, put.
\<close>

definition ConnectionPool_Put :: "Engine \<Rightarrow> nat \<Rightarrow> Engine" where
  "ConnectionPool_Put e a =
     e\<lparr>conns := (case conns e a of
                    None \<Rightarrow> conns e
                  | Some c \<Rightarrow> (conns e)(a \<mapsto> Connection_Reset c)),
       connectionPool := (connectionPool e)
         \<lparr>cp_puts := cp_puts (connectionPool e) + 1,
          cp_pool := a # cp_pool (connectionPool e)\<rparr>\<rparr>"

text \<open>
  \<open>closeConnection\<close>. \<open>poller.Remove\<close> and \<open>syscall.Close\<close> take the descriptor out of
  the registered and of the open descriptors; their errors are not looked at.
\<close>

definition release_request :: "Engine \<Rightarrow> Connection \<Rightarrow> Engine \<times> Connection" where
  "release_request e c =
     (case conn_request c of
        None \<Rightarrow> (e, c)
      | Some req \<Rightarrow>
          (e\<lparr>requestPool := SmartPool_Put (requestPool e) req\<rparr>, c\<lparr>conn_request := None\<rparr>))"

definition release_context :: "Engine \<Rightarrow> Connection \<Rightarrow> Engine \<times> Connection" where
  "release_context e c =
     (case conn_context c of
        None \<Rightarrow> (e, c)
      | Some ctx \<Rightarrow>
          (e\<lparr>contextPool := SmartPool_Put (contextPool e) ctx\<rparr>, c\<lparr>conn_context := None\<rparr>))"

definition release_buffer :: "Engine \<Rightarrow> Connection \<Rightarrow> panic + (Engine \<times> Connection)" where
  "release_buffer e c =
     (case readBuf c of
        None \<Rightarrow> Inr (e, c)
      | Some buf \<Rightarrow>
          (case Put (bytePool e) buf of
             Inl p \<Rightarrow> Inl p
           | Inr bp \<Rightarrow> Inr (e\<lparr>bytePool := bp\<rparr>, c\<lparr>readBuf := None\<rparr>)))"

definition closeConnection :: "Engine \<Rightarrow> int \<Rightarrow> panic + Engine" where
  "closeConnection e f =
     (case connections e f of
        None \<Rightarrow> Inr e
      | Some a \<Rightarrow>
          (let e1 = e\<lparr>connections := (connections e)(f := None)\<rparr>;
               e2 = e1\<lparr>poller_fds := poller_fds e1 - {f}\<rparr>
           in case conns e2 a of
                None \<Rightarrow> Inl NilDereference
              | Some c \<Rightarrow>
                  (case release_request e2 c of (e3, c3) \<Rightarrow>
                   (case release_context e3 c3 of (e4, c4) \<Rightarrow>
                    (case release_buffer e4 c4 of
                       Inl p \<Rightarrow> Inl p
                     | Inr (e5, c5) \<Rightarrow>
                         (let e6 = e5\<lparr>open_fds := open_fds e5 - {f}\<rparr>;
                              e7 = e6\<lparr>conns := (conns e6)(a \<mapsto> Connection_Reset c5)\<rparr>
                          in Inr (ConnectionPool_Put e7 a)))))))"

text \<open>
  \<open>checkKeepAlive\<close> on the connection at address \<open>a\<close>, at the time \<open>now\<close> that
  \<open>time.Now()\<close> returns.
\<close>

definition checkKeepAlive :: "Engine \<Rightarrow> nat \<Rightarrow> int \<Rightarrow> panic + Engine" where
  "checkKeepAlive e a now =
     (case conns e a of
        None \<Rightarrow> Inl NilDereference
      | Some c \<Rightarrow>
          (case conn_request c of
             None \<Rightarrow> Inl NilDereference
           | Some req \<Rightarrow>
               (if Proto req = ''HTTP/1.0'' \<or> Connection req = ''close'' then
                  closeConnection e (conn_fd c)
                else
                  Inr (e\<lparr>conns := (conns e)(a \<mapsto>
                                c\<lparr>conn_state := StateReading, readOffset := 0,
                                  conn_request := None, lastActive := now\<rparr>),
                         http_requestPool := ReleaseRequest req (http_requestPool e)\<rparr>))))"

text \<open>
  An engine with one connection, at address 0 on descriptor 7, that has just handled a
  request: the pools as \<open>NewEngine\<close> makes them, without their warm-up objects, and the
  read buffer as \<open>acceptConnections\<close> takes it from the byte pool.
\<close>

definition handled_request :: "string \<Rightarrow> string \<Rightarrow> Request" where
  "handled_request proto connection_header =
     new_Request\<lparr>Method := ''GET'', Path := ''/'', Proto := proto,
                  Connection := connection_header\<rparr>"

definition engine_after_request :: "Request \<Rightarrow> Engine" where
  "engine_after_request req =
     \<lparr>conns = [0 \<mapsto> \<lparr>conn_fd = 7, conn_state = StateProcessing,
                       readBuf = Some (make_bytes 8192 8192), readOffset = 0,
                       conn_request = Some req, conn_context = None, lastActive = 50,
                       keepAlive = True, closeAfter = False\<rparr>],
      connections = [7 \<mapsto> 0],
      poller_fds = {3, 7},
      open_fds = {3, 7},
      contextPool = \<lparr>sp_pool = [], newFunc = zeroFDContext,
                      resetFunc = Some engine_context_reset,
                      sp_gets = 1, sp_puts = 1, sp_news = 1,
                      warmupSize = 500, maxIdleSize = 1000\<rparr>,
      requestPool = \<lparr>sp_pool = [], newFunc = new_Request\<lparr>Body := \<lparr>backing = [], slen = 0\<rparr>\<rparr>,
                      resetFunc = Some engine_request_reset,
                      sp_gets = 0, sp_puts = 0, sp_news = 0,
                      warmupSize = 500, maxIdleSize = 1000\<rparr>,
      bytePool = NewBytePool,
      connectionPool = \<lparr>cp_pool = [], cp_gets = 1, cp_puts = 0, capacity = 10000\<rparr>,
      http_requestPool = []\<rparr>"

section \<open>Package middleware: Pipeline\<close>

text \<open>
  A handler runs on the context and either returns or panics, in both cases leaving the
  context as it made it. A \<open>HandlerFunc\<close> is a function value and may be nil.
\<close>

datatype 'a outcome = Returned 'a | Panicked panic 'a

type_synonym HandlerFunc = "(FDContext \<Rightarrow> FDContext outcome) option"

definition call_handler :: "HandlerFunc \<Rightarrow> FDContext \<Rightarrow> FDContext outcome" where
  "call_handler h ctx = (case h of None \<Rightarrow> Panicked NilFuncCall ctx | Some f \<Rightarrow> f ctx)"

record Pipeline =
  p_handlers :: "HandlerFunc list"
  p_length :: int

definition NewPipeline :: Pipeline where
  "NewPipeline = \<lparr>p_handlers = [], p_length = 0\<rparr>"

definition Use :: "Pipeline \<Rightarrow> HandlerFunc \<Rightarrow> Pipeline" where
  "Use p handler =
     (let hs = p_handlers p @ [handler] in \<lparr>p_handlers = hs, p_length = int (length hs)\<rparr>)"

text \<open>
  \<open>Execute\<close> is instrumented: beside the outcome it returns, in order, which handlers it
  invoked, each with the value of \<open>IsAborted\<close> when the handler was left.
\<close>

datatype call = MiddlewareCall nat | FinalCall

type_synonym trace = "(call \<times> bool) list"

definition call_final :: "HandlerFunc \<Rightarrow> FDContext \<Rightarrow> trace \<times> FDContext outcome" where
  "call_final finalHandler ctx =
     (case call_handler finalHandler ctx of
        Returned c \<Rightarrow> ([(FinalCall, IsAborted c)], Returned c)
      | Panicked e c \<Rightarrow> ([(FinalCall, IsAborted c)], Panicked e c))"

text \<open>
  The loop \<open>for i := 0; i < p.length; i++\<close> over the indices still to run, followed by
  the final handler; \<open>return\<close> inside the loop leaves \<open>Execute\<close>.
\<close>

fun Execute_from :: "Pipeline \<Rightarrow> HandlerFunc \<Rightarrow> nat list \<Rightarrow> FDContext
                     \<Rightarrow> trace \<times> FDContext outcome" where
  "Execute_from p finalHandler [] ctx =
     (if \<not> IsAborted ctx then call_final finalHandler ctx else ([], Returned ctx))"
| "Execute_from p finalHandler (i # is) ctx =
     (if i \<ge> length (p_handlers p) then ([], Panicked IndexOutOfRange ctx)
      else
        (case call_handler (p_handlers p ! i) ctx of
           Panicked e c \<Rightarrow> ([(MiddlewareCall i, IsAborted c)], Panicked e c)
         | Returned c \<Rightarrow>
             (if IsAborted c then ([(MiddlewareCall i, True)], Returned c)
              else
                (case Execute_from p finalHandler is c of
                   (tr, r) \<Rightarrow> ((MiddlewareCall i, False) # tr, r)))))"

definition Execute :: "Pipeline \<Rightarrow> FDContext \<Rightarrow> HandlerFunc \<Rightarrow> trace \<times> FDContext outcome" where
  "Execute p ctx finalHandler =
     (if p_length p = 0 then call_final finalHandler ctx
      else Execute_from p finalHandler [0 ..< nat (p_length p)] ctx)"

text \<open>
  \<open>Recovery\<close> returns a handler whose body is only a \<open>defer\<close>: the deferred function runs
  when that body, which is empty, is left, and \<open>recover\<close> sees a panic of that body only.
\<close>

definition with_deferred :: "(FDContext \<Rightarrow> FDContext outcome)
    \<Rightarrow> (panic option \<Rightarrow> FDContext \<Rightarrow> FDContext outcome) \<Rightarrow> FDContext \<Rightarrow> FDContext outcome" where
  "with_deferred body deferred ctx =
     (case body ctx of
        Returned c \<Rightarrow> deferred None c
      | Panicked e c \<Rightarrow> deferred (Some e) c)"

definition internal_error_body :: string where
  "internal_error_body =
     ''{'' @ [CHR 0x22] @ ''error'' @ [CHR 0x22] @ '':'' @ [CHR 0x22]
       @ ''Internal Server Error'' @ [CHR 0x22] @ ''}''"

definition recover_and_report :: "panic option \<Rightarrow> FDContext \<Rightarrow> FDContext outcome" where
  "recover_and_report err ctx =
     (case err of
        None \<Rightarrow> Returned ctx
      | Some e \<Rightarrow> Returned (JSON (Abort ctx) 500 (Some internal_error_body)))"

definition Recovery :: HandlerFunc where
  "Recovery = Some (with_deferred (\<lambda>ctx. Returned ctx) recover_and_report)"

text \<open>Two middlewares of the kind the package's tests use: one returns, one aborts.\<close>

definition pass_mw :: HandlerFunc where
  "pass_mw = Some (\<lambda>c. Returned c)"

definition abort_mw :: HandlerFunc where
  "abort_mw = Some (\<lambda>c. Returned (Abort c))"

text \<open>The decimal text \<open>appendInt\<close> writes, read off an empty buffer.\<close>

definition int_text :: "int \<Rightarrow> string" where
  "int_text i = contents (appendInt \<lparr>backing = [], slen = 0\<rparr> i)"

section \<open>Facts about the shared values\<close>

lemma delete_notin: "k \<notin> fst ` set m \<Longrightarrow> AList.delete k m = m"
  by (induction m) auto

lemma fold_delete_Nil: "fold AList.delete ks [] = ([] :: 'v gomap)"
  by (induction ks) (simp_all add: AList.delete_eq)

lemma fold_delete_keys:
  "fst ` set m \<subseteq> set ks \<Longrightarrow> fold AList.delete ks m = ([] :: 'v gomap)"
proof (induction ks arbitrary: m)
  case Nil
  then show ?case by simp
next
  case (Cons k ks)
  have "fst ` set (AList.delete k m) \<subseteq> set ks"
    using Cons.prems by (auto simp: AList.delete_eq)
  then show ?case
    using Cons.IH by simp
qed

lemma delete_all_keys_empty: "delete_all_keys m = []"
  unfolding delete_all_keys_def by (rule fold_delete_keys) simp

lemma contents_append_bytes: "contents (append_bytes b xs) = contents b @ xs"
proof -
  define vis where "vis = contents b @ xs"
  have "contents (append_bytes b xs) = vis"
    unfolding append_bytes_def Let_def vis_def [symmetric]
    by (simp add: contents_def [of "\<lparr>backing = _, slen = _\<rparr>"])
  then show ?thesis by (simp add: vis_def)
qed

lemma contents_reslice0: "contents (reslice0 b) = []"
  by (simp add: contents_def reslice0_def)

lemma cap_reslice0: "cap (reslice0 b) = cap b"
  by (simp add: cap_def reslice0_def)

section \<open>FDContext.Reset\<close>

lemma Reset_maps_empty:
  "paramMapOverflow (Reset c f req) \<in> {None, Some []}"
  "responseHeaders (Reset c f req) \<in> {None, Some []}"
  by (cases "paramMapOverflow c"; cases "responseHeaders c";
      simp add: Reset_def delete_all_keys_empty)+

lemma Param_Reset: "Param (Reset c f req) key = ''''"
proof -
  have "paramCount (Reset c f req) = 0"
    by (simp add: Reset_def)
  moreover have "map_get (paramMapOverflow (Reset c f req)) key = ''''"
    using Reset_maps_empty(1) [of c f req] by (auto simp: map_get_def)
  ultimately show ?thesis
    by (simp add: Param_def)
qed

text \<open>
  C9. For every descriptor \<open>fd\<close> and request \<open>req\<close>, \<open>Reset(fd, req)\<close> leaves the context
  with status code 200, the aborted flag false, no inline parameters, an overflow map and
  a response-header map without entries (a nil map stays nil), and a response buffer of
  length zero over the same array, so of the same capacity. No parameter of the previous
  request is visible through \<open>Param\<close>, and the context holds the new descriptor and
  request.
\<close>

theorem Reset_clears_context:
  "statusCode (Reset c f req) = 200
   \<and> \<not> IsAborted (Reset c f req)
   \<and> paramCount (Reset c f req) = 0
   \<and> paramMapOverflow (Reset c f req) = map_option (\<lambda>_. []) (paramMapOverflow c)
   \<and> responseHeaders (Reset c f req) = map_option (\<lambda>_. []) (responseHeaders c)
   \<and> slen (responseBuf (Reset c f req)) = 0
   \<and> contents (responseBuf (Reset c f req)) = []
   \<and> cap (responseBuf (Reset c f req)) = cap (responseBuf c)
   \<and> backing (responseBuf (Reset c f req)) = backing (responseBuf c)
   \<and> (\<forall>key. Param (Reset c f req) key = '''')
   \<and> (\<forall>key. map_get (responseHeaders (Reset c f req)) key = '''')
   \<and> fd (Reset c f req) = f \<and> request (Reset c f req) = req"
proof -
  have maps: "paramMapOverflow (Reset c f req) = map_option (\<lambda>_. []) (paramMapOverflow c)"
    "responseHeaders (Reset c f req) = map_option (\<lambda>_. []) (responseHeaders c)"
    by (cases "paramMapOverflow c"; cases "responseHeaders c";
        simp add: Reset_def delete_all_keys_empty)+
  have hdr: "map_get (responseHeaders (Reset c f req)) key = ''''" for key
    unfolding maps by (cases "responseHeaders c") (simp_all add: map_get_def)
  have buf: "slen (responseBuf (Reset c f req)) = 0"
    "contents (responseBuf (Reset c f req)) = []"
    "cap (responseBuf (Reset c f req)) = cap (responseBuf c)"
    "backing (responseBuf (Reset c f req)) = backing (responseBuf c)"
    by (simp_all add: Reset_def contents_reslice0 cap_reslice0) (simp_all add: reslice0_def)
  have scal: "statusCode (Reset c f req) = 200" "\<not> IsAborted (Reset c f req)"
    "paramCount (Reset c f req) = 0" "fd (Reset c f req) = f" "request (Reset c f req) = req"
    by (simp_all add: Reset_def IsAborted_def)
  show ?thesis
    using maps hdr scal buf Param_Reset [of c f req]
    by simp
qed

section \<open>Response emission\<close>


lemma contents_appendInt: "contents (appendInt b i) = contents b @ contents (appendInt \<lparr>backing = [], slen = 0\<rparr> i)"
  by (simp add: appendInt_def Let_def contents_append_bytes) (simp add: contents_def)

lemma contents_status_line:
  "contents (status_line b code) = ''HTTP/1.1 '' @ int_text code @ '' '' @ statusText code @ CRLF"
  unfolding status_line_def Let_def int_text_def
  by (simp add: contents_append_bytes contents_appendInt [of "append_bytes _ _"] contents_reslice0)

lemma contents_length_and_body:
  "contents (length_and_body b body) =
     contents b @ ''Content-Length: '' @ int_text (int (length body)) @ CRLF @ CRLF @ body"
  unfolding length_and_body_def Let_def int_text_def
  by (simp add: contents_append_bytes contents_appendInt [of "append_bytes _ _"])

lemma String_bytes:
  "contents (responseBuf (String c code s)) =
     ''HTTP/1.1 '' @ int_text code @ '' '' @ statusText code @ CRLF
     @ ''Content-Type: text/plain'' @ CRLF
     @ ''Content-Length: '' @ int_text (int (length s)) @ CRLF @ CRLF @ s"
  by (simp add: String_def contents_length_and_body contents_append_bytes contents_status_line)

lemma String_ignores_SetHeader:
  "responseBuf (String (SetHeader c key val) code s) = responseBuf (String c code s)"
  by (simp add: String_def SetHeader_def)

lemma int_text_200: "int_text 200 = ''200''"
  unfolding int_text_def by code_simp

lemma int_text_2: "int_text 2 = ''2''"
  unfolding int_text_def by code_simp

text \<open>
  C4. The claim is that every header set through \<open>SetHeader\<close> appears in the bytes an
  emitter appends. The emitters never read \<open>responseHeaders\<close>: after
  \<open>SetHeader("X-Request-ID", "1")\<close>, \<open>String(200, "hi")\<close> appends the status line, the
  Content-Type, the Content-Length, the blank line and the body, and no \<open>X-Request-ID\<close>.
\<close>

theorem String_after_SetHeader_omits_header:
  "contents (responseBuf (String (SetHeader zeroFDContext ''X-Request-ID'' ''1'') 200 ''hi''))
     = ''HTTP/1.1 200 OK'' @ CRLF @ ''Content-Type: text/plain'' @ CRLF
       @ ''Content-Length: 2'' @ CRLF @ CRLF @ ''hi''"
  by (simp add: String_ignores_SetHeader String_bytes int_text_200 int_text_2 statusText_def)

section \<open>BytePool.Put\<close>

text \<open>
  C8, as stated, fails: a pooled buffer is not returned with length zero. A buffer of
  capacity 512 and length 10 goes to the first class with length 512.
\<close>

theorem Put_length_counterexample:
  "Put NewBytePool (make_bytes 10 512)
     = Inr \<lparr>pools = [[make_bytes 512 512], [], [], []], sizes = defaultSizes\<rparr>
   \<and> slen (make_bytes 512 512) \<noteq> 0"
  by (simp add: Put_def NewBytePool_def NewBytePoolWithSizes_def defaultSizes_def make_bytes_def cap_def)

lemma Put_class:
  assumes "sizes bp = defaultSizes" and "length (pools bp) = 4"
    and "i < 4" and "int (cap buf) = defaultSizes ! i"
  shows "Put bp buf = Inr (bp\<lparr>pools := (pools bp)[i := buf\<lparr>slen := cap buf\<rparr> # pools bp ! i]\<rparr>)"
proof -
  from \<open>i < 4\<close> consider "i = 0" | "i = Suc 0" | "i = Suc (Suc 0)" | "i = Suc (Suc (Suc 0))"
    by arith
  then show ?thesis
    by cases (use assms in \<open>simp_all add: Put_def defaultSizes_def\<close>)
qed

lemma Put_off_class:
  assumes "sizes bp = defaultSizes" and "int (cap buf) \<notin> set defaultSizes"
  shows "Put bp buf = Inr bp"
  using assms by (simp add: Put_def defaultSizes_def)

text \<open>
  C8, amended. In a pool over the classes 512, 2048, 8192, 32768, \<open>Put\<close> of a buffer
  whose capacity is the size of class \<open>i\<close> adds it to that class's free list, and to no
  other, with its length set to its capacity and its capacity unchanged; a buffer whose
  capacity is no class size leaves the pool as it was.
\<close>

theorem Put_routes_by_capacity:
  assumes "sizes bp = defaultSizes" and "length (pools bp) = 4"
  shows "(\<forall>i<4. int (cap buf) = defaultSizes ! i \<longrightarrow>
            Put bp buf = Inr (bp\<lparr>pools := (pools bp)[i := buf\<lparr>slen := cap buf\<rparr> # pools bp ! i]\<rparr>)
            \<and> cap (buf\<lparr>slen := cap buf\<rparr>) = cap buf
            \<and> slen (buf\<lparr>slen := cap buf\<rparr>) = cap buf)
       \<and> (int (cap buf) \<notin> set defaultSizes \<longrightarrow> Put bp buf = Inr bp)"
  using Put_class [OF assms] Put_off_class [OF assms(1)] by (simp add: cap_def)

theorem Put_routes_by_capacity_witness:
  "Put NewBytePool (make_bytes 100 2048)
     = Inr (NewBytePool\<lparr>pools := [[], [make_bytes 2048 2048], [], []]\<rparr>)
   \<and> cap (make_bytes 2048 2048) = 2048
   \<and> Put NewBytePool (make_bytes 100 1000) = Inr NewBytePool"
proof -
  have s: "sizes NewBytePool = defaultSizes" and l: "length (pools NewBytePool) = 4"
    by (simp_all add: NewBytePool_def NewBytePoolWithSizes_def defaultSizes_def)
  have p: "pools NewBytePool = [[], [], [], []]"
    by (simp add: NewBytePool_def NewBytePoolWithSizes_def defaultSizes_def numeral_eq_Suc)
  have c1: "int (cap (make_bytes 100 2048)) = defaultSizes ! 1"
    by (simp add: cap_def make_bytes_def defaultSizes_def)
  have c2: "int (cap (make_bytes 100 1000)) \<notin> set defaultSizes"
    by (simp add: cap_def make_bytes_def defaultSizes_def)
  have a: "Put NewBytePool (make_bytes 100 2048) =
      Inr (NewBytePool\<lparr>pools := (pools NewBytePool)
             [1 := (make_bytes 100 2048)\<lparr>slen := cap (make_bytes 100 2048)\<rparr> # pools NewBytePool ! 1]\<rparr>)"
    using Put_routes_by_capacity [OF s l, of "make_bytes 100 2048", THEN conjunct1, rule_format, of 1] c1
    by simp
  have b: "Put NewBytePool (make_bytes 100 1000) = Inr NewBytePool"
    using Put_routes_by_capacity [OF s l, of "make_bytes 100 1000", THEN conjunct2] c2
    by simp
  show ?thesis
    unfolding a b by (simp add: p make_bytes_def cap_def)
qed


section \<open>Pipeline.Execute\<close>


lemma call_final_calls: "(c, b) \<in> set (fst (call_final h ctx)) \<Longrightarrow> c = FinalCall"
  by (auto simp: call_final_def split: outcome.splits)

lemma Execute_from_aborted_entry:
  "(MiddlewareCall k, True) \<in> set (fst (Execute_from p h is ctx)) \<Longrightarrow>
     \<exists>pre post. is = pre @ k # post
       \<and> fst (Execute_from p h is ctx)
           = map (\<lambda>i. (MiddlewareCall i, False)) pre @ [(MiddlewareCall k, True)]"
proof (induction "is" arbitrary: ctx)
  case Nil
  then show ?case
    by (auto simp: call_final_def split: if_splits outcome.splits)
next
  case (Cons i "is")
  show ?case
  proof (cases "i \<ge> length (p_handlers p)")
    case True
    with Cons.prems show ?thesis by simp
  next
    case False
    show ?thesis
    proof (cases "call_handler (p_handlers p ! i) ctx")
      case (Panicked e c)
      with False Cons.prems have "i = k" and "IsAborted c" by auto
      with False Panicked show ?thesis
        by (intro exI [of _ "[]"] exI [of _ "is"]) simp
    next
      case (Returned c)
      show ?thesis
      proof (cases "IsAborted c")
        case True
        with False Returned Cons.prems have "i = k" by auto
        with False Returned True show ?thesis
          by (intro exI [of _ "[]"] exI [of _ "is"]) simp
      next
        case na: False
        from False Returned na have eq: "fst (Execute_from p h (i # is) ctx)
            = (MiddlewareCall i, False) # fst (Execute_from p h is c)"
          by (simp split: prod.splits)
        with Cons.prems have "(MiddlewareCall k, True) \<in> set (fst (Execute_from p h is c))"
          by simp
        from Cons.IH [OF this] obtain pre post where
          "is = pre @ k # post"
          "fst (Execute_from p h is c) = map (\<lambda>i. (MiddlewareCall i, False)) pre @ [(MiddlewareCall k, True)]"
          by blast
        then show ?thesis
          unfolding eq by (intro exI [of _ "i # pre"] exI [of _ post]) simp
      qed
    qed
  qed
qed

lemma upt_split_less:
  assumes "[0 ..< n] = pre @ k # post" and "i \<in> set pre"
  shows "i < k"
proof -
  have "sorted_wrt (<) (pre @ k # post)"
    unfolding assms(1) [symmetric] by simp
  then show ?thesis
    using assms(2) by (auto simp: sorted_wrt_append)
qed

text \<open>
  C7. For every pipeline and terminal handler: if \<open>Execute\<close> invoked the k-th middleware
  and the aborted flag was set when that middleware was left, then \<open>Execute\<close> invoked no
  middleware after the k-th and did not invoke the terminal handler.
\<close>

theorem Execute_abort_skips_rest:
  assumes "(MiddlewareCall k, True) \<in> set (fst (Execute p ctx finalHandler))"
  shows "(\<forall>j b. k < j \<longrightarrow> (MiddlewareCall j, b) \<notin> set (fst (Execute p ctx finalHandler)))
       \<and> (\<forall>b. (FinalCall, b) \<notin> set (fst (Execute p ctx finalHandler)))"
proof (cases "p_length p = 0")
  case True
  with assms show ?thesis
    by (auto simp: Execute_def dest: call_final_calls)
next
  case False
  then have E: "Execute p ctx finalHandler
      = Execute_from p finalHandler [0 ..< nat (p_length p)] ctx"
    by (simp add: Execute_def)
  from Execute_from_aborted_entry [OF assms [unfolded E]] obtain pre post where
    sp: "[0 ..< nat (p_length p)] = pre @ k # post" and
    tr: "fst (Execute_from p finalHandler [0 ..< nat (p_length p)] ctx)
           = map (\<lambda>i. (MiddlewareCall i, False)) pre @ [(MiddlewareCall k, True)]"
    by blast
  show ?thesis
    unfolding E tr using upt_split_less [OF sp] by (auto dest: less_asym)
qed

theorem Execute_abort_skips_rest_witness:
  "(MiddlewareCall 1, True) \<in>
      set (fst (Execute (Use (Use (Use NewPipeline pass_mw) abort_mw) pass_mw) zeroFDContext pass_mw))
   \<and> (MiddlewareCall 2, False) \<notin>
      set (fst (Execute (Use (Use (Use NewPipeline pass_mw) abort_mw) pass_mw) zeroFDContext pass_mw))
   \<and> (MiddlewareCall 2, True) \<notin>
      set (fst (Execute (Use (Use (Use NewPipeline pass_mw) abort_mw) pass_mw) zeroFDContext pass_mw))
   \<and> (FinalCall, False) \<notin>
      set (fst (Execute (Use (Use (Use NewPipeline pass_mw) abort_mw) pass_mw) zeroFDContext pass_mw))
   \<and> (FinalCall, True) \<notin>
      set (fst (Execute (Use (Use (Use NewPipeline pass_mw) abort_mw) pass_mw) zeroFDContext pass_mw))"
proof -
  have "fst (Execute (Use (Use (Use NewPipeline pass_mw) abort_mw) pass_mw) zeroFDContext pass_mw)
     = [(MiddlewareCall 0, False), (MiddlewareCall 1, True)]"
    by (simp add: Execute_def Use_def NewPipeline_def pass_mw_def abort_mw_def call_handler_def
        IsAborted_def Abort_def zeroFDContext_def upt_rec)
  then have h: "(MiddlewareCall 1, True) \<in>
      set (fst (Execute (Use (Use (Use NewPipeline pass_mw) abort_mw) pass_mw) zeroFDContext pass_mw))"
    by simp
  have "(1::nat) < 2" by simp
  with Execute_abort_skips_rest [OF h] h show ?thesis
    by blast
qed

text \<open>
  C2. The claim is that with \<open>Recovery\<close> installed first a panic of the terminal handler
  is caught inside \<open>Execute\<close>. \<open>Recovery\<close>'s deferred function belongs to the middleware's
  own call, which has returned before the terminal handler runs: with the pipeline and the
  handler of \<open>TestRecoveryMiddleware\<close> the panic leaves \<open>Execute\<close>, the context is not
  aborted and its response buffer is untouched.
\<close>

theorem Recovery_does_not_catch_downstream_panic:
  "Execute (Use NewPipeline Recovery) zeroFDContext (Some (\<lambda>c. Panicked (PanicMsg ''test panic'') c))
     = ([(MiddlewareCall 0, False), (FinalCall, False)],
        Panicked (PanicMsg ''test panic'') zeroFDContext)"
  by (simp add: Execute_def Use_def NewPipeline_def Recovery_def with_deferred_def
      recover_and_report_def call_handler_def call_final_def IsAborted_def zeroFDContext_def upt_rec)

section \<open>ParseRequest\<close>

lemma parse_after_line_Parsed:
  "fst (parse_after_line req data pool) = Parsed r \<Longrightarrow>
     Index data [CHR 0x0D, CHR 0x0A, CHR 0x0D, CHR 0x0A] \<noteq> None
     \<or> Index data [CHR 0x0A, CHR 0x0A] \<noteq> None"
  by (auto simp: parse_after_line_def split: option.splits)

text \<open>
  A request comes back only for an input with a first line, ended by a line feed, and a
  header terminator after it; every other input that does not panic gets the error.
\<close>

lemma ParseRequest_Parsed_is_complete:
  assumes "fst (ParseRequest pool data) = Parsed r"
  shows "\<exists>lineEnd. IndexByte data (CHR 0x0A) = Some lineEnd
           \<and> (Index (drop (lineEnd + 1) data) [CHR 0x0D, CHR 0x0A, CHR 0x0D, CHR 0x0A] \<noteq> None
                \<or> Index (drop (lineEnd + 1) data) [CHR 0x0A, CHR 0x0A] \<noteq> None)"
proof (cases "IndexByte data (CHR 0x0A)")
  case None
  with assms show ?thesis
    by (simp add: ParseRequest_def split: prod.splits)
next
  case (Some lineEnd)
  with assms obtain req2 pool2 where
    "fst (parse_after_line req2 (drop (lineEnd + 1) data) pool2) = Parsed r"
    by (auto simp: ParseRequest_def Let_def split: prod.splits if_splits option.splits)
  from parse_after_line_Parsed [OF this] Some show ?thesis
    by simp
qed

text \<open>
  C3. The claim is that \<open>ParseRequest\<close> never panics, whatever the bytes. The first line is
  indexed at \<open>line[len(line)-1]\<close> without a length check (\<open>parseHeaders\<close> has the check):
  every input whose first byte is a line feed has an empty first line and panics with an
  index out of range.
\<close>

theorem ParseRequest_panics_on_leading_newline:
  "fst (ParseRequest pool (CHR 0x0A # rest)) = ParsePanic IndexOutOfRange"
  by (simp add: ParseRequest_def split: prod.splits)

text \<open>
  C6. The claim is that header lines are parsed whether the header block ends with
  CR LF CR LF or with LF LF. The LF LF branch skips the block without calling
  \<open>parseHeaders\<close>: the request \<open>GET / HTTP/1.1\<close>, \<open>Host: x\<close>, blank line comes back with
  \<open>Host\<close> empty when its lines end with LF, and with \<open>Host = "x"\<close> when they end with CR LF.
\<close>

theorem ParseRequest_bare_lf_drops_headers:
  "fst (ParseRequest [] bare_lf_request)
     = Parsed (new_Request\<lparr>Method := ''GET'', Path := ''/'', Proto := ''HTTP/1.1''\<rparr>)
   \<and> fst (ParseRequest [] crlf_request)
     = Parsed (new_Request\<lparr>Method := ''GET'', Path := ''/'', Proto := ''HTTP/1.1'', Host := ''x''\<rparr>)"
  by (simp add: ParseRequest_def AcquireRequest_def bare_lf_request_def crlf_request_def LF_def CRLF_def
      parse_after_line_def parse_body_def header_line_def set_header_of_line_def
      Request_SetHeader_def TrimSpace_def leading_space_def trailing_space_def asciiSpace_def
      space_runes_def Let_def)

section \<open>The router\<close>

lemma param_then_static_tree:
  "add_routes NewRadixRouter param_then_static =
    (\<lparr>root = Some (Node ''/user/'' ''a''
        [Node '':id'' [] [] (Some [(''GET'', Some 2)]) 1 param ''id'',
         Node ''admin'' [] [] (Some [(''GET'', Some 1)]) 0 static []] (Some []) 0 static [])\<rparr>, None)"
  by code_simp

text \<open>
  C1. The claim is that \<open>Find\<close> returns a handler exactly for the expansions of the
  registered patterns, also where static and wildcard routes share a prefix. After
  \<open>Add("GET", "/user/:id", h2)\<close> and \<open>Add("GET", "/user/admin", h1)\<close>, both of which return,
  the static child stands after the wildcard child while \<open>indices\<close> counts static children
  only: \<open>Find("GET", "/user/admin")\<close> and \<open>Find("GET", "/user/123")\<close> both return nil.
\<close>

theorem Find_misses_registered_routes:
  "snd (add_routes NewRadixRouter param_then_static) = None
   \<and> Find (router_of param_then_static) ''GET'' ''/user/admin'' = Inr (None, None)
   \<and> Find (router_of param_then_static) ''GET'' ''/user/123'' = Inr (None, None)"
  by code_simp

text \<open>
  In the order of the test the two paths of the test are found, and a path that expands
  \<open>/user/:id\<close> and starts like the static sibling is not: the walk enters the static child
  and never comes back to the wildcard.
\<close>

lemma Find_static_sibling_hides_param:
  "snd (add_routes NewRadixRouter static_then_param) = None
   \<and> Find (router_of static_then_param) ''GET'' ''/user/admin'' = Inr (Some 1, None)
   \<and> Find (router_of static_then_param) ''GET'' ''/user/123'' = Inr (Some 2, Some [(''id'', ''123'')])
   \<and> Find (router_of static_then_param) ''GET'' ''/user/alice'' = Inr (None, None)"
  by code_simp

text \<open>A single parameter route binds the segment, as in the specification's scenario.\<close>

lemma Find_binds_param:
  "Find (router_of [(''GET'', ''/api/users/:id'', 1)]) ''GET'' ''/api/users/42''
     = Inr (Some 1, Some [(''id'', ''42'')])
   \<and> Find (router_of [(''GET'', ''/api/users/:id'', 1)]) ''POST'' ''/api/users/42''
     = Inr (None, None)"
  by code_simp

text \<open>A catch-all route cannot be registered on a new router: \<open>Add\<close> panics.\<close>

lemma Add_catch_all_on_new_router_panics:
  "Add NewRadixRouter ''GET'' ''/static/*path'' (Some 1) =
     (NewRadixRouter,
      Some (Panics (PanicMsg ''catch-all conflicts with existing handle for the path segment'')))"
  by code_simp

lemma Add_returns_only_with_slash:
  "snd (Add r method pth handler) = None \<Longrightarrow> pth \<noteq> [] \<and> pth ! 0 = CHR ''/''"
  by (auto simp: Add_def split: if_splits)

text \<open>
  C10. For every router, method and handler, and every pattern that is empty or whose
  first byte is not \<open>/\<close>, \<open>Add\<close> panics and leaves the router, so the route tree, as it was.
\<close>

theorem Add_requires_leading_slash:
  assumes "pth = [] \<or> pth ! 0 \<noteq> CHR ''/''"
  shows "\<exists>p. Add r method pth handler = (r, Some (Panics p))"
  using assms by (auto simp: Add_def)

theorem Add_requires_leading_slash_witness:
  "Add (router_of static_then_param) ''GET'' ''users'' (Some 3)
     = (router_of static_then_param,
        Some (Panics (PanicMsg (''path must begin with '' @ apostrophe @ ''/'' @ apostrophe))))"
proof -
  have "''users'' = [] \<or> ''users'' ! 0 \<noteq> CHR ''/''" by simp
  from Add_requires_leading_slash [OF this, of "router_of static_then_param" "''GET''" "Some 3"]
  show ?thesis by (auto simp: Add_def)
qed

section \<open>Engine.checkKeepAlive\<close>

lemma Put_scan_total:
  "i + length szs \<le> length ps \<Longrightarrow> \<exists>ps'. Put_scan ps szs i buf = Inr ps'"
  by (induction szs arbitrary: i) auto

lemma Put_total:
  assumes "length (pools bp) = length (sizes bp)"
  shows "\<exists>bp'. Put bp buf = Inr bp'"
proof -
  from assms have "0 + length (sizes bp) \<le> length (pools bp)" by simp
  from Put_scan_total [OF this] obtain ps' where "Put_scan (pools bp) (sizes bp) 0 buf = Inr ps'"
    by blast
  then show ?thesis by (simp add: Put_def)
qed

text \<open>
  C5. Let the engine have finished a request on the connection at address \<open>a\<close>: the
  connection holds the request, it is the connection the table has at its descriptor, and
  the byte pool has a free list for each size class. Then \<open>checkKeepAlive\<close> returns. If the
  request's \<open>Proto\<close> is \<open>HTTP/1.0\<close> or its \<open>Connection\<close> header is \<open>close\<close>, the descriptor
  is gone from the table, from the poller and from the open descriptors, the request
  and, when one is attached, the context are in the engine's pools as their reset
  functions leave them, the read buffer, when there is one, has been given to
  \<open>BytePool.Put\<close>, the connection is reset, and its address is in the connection pool.
  Otherwise the connection is in state Reading with read offset 0, no request and the
  current time as last-active time, the request is in package http's pool, reset, and
  nothing else has changed.
\<close>

theorem checkKeepAlive_closes_or_resets:
  assumes c: "conns e a = Some c"
    and rq: "conn_request c = Some req"
    and tab: "connections e (conn_fd c) = Some a"
    and bp: "length (pools (bytePool e)) = length (sizes (bytePool e))"
  shows "\<exists>e'. checkKeepAlive e a now = Inr e' \<and>
     (if Proto req = ''HTTP/1.0'' \<or> Connection req = ''close'' then
        connections e' = (connections e)(conn_fd c := None)
        \<and> poller_fds e' = poller_fds e - {conn_fd c}
        \<and> open_fds e' = open_fds e - {conn_fd c}
        \<and> sp_pool (requestPool e')
            = apply_reset (resetFunc (requestPool e)) req # sp_pool (requestPool e)
        \<and> sp_pool (contextPool e')
            = (case conn_context c of
                 None \<Rightarrow> sp_pool (contextPool e)
               | Some ctx \<Rightarrow> apply_reset (resetFunc (contextPool e)) ctx # sp_pool (contextPool e))
        \<and> (case readBuf c of
              None \<Rightarrow> bytePool e' = bytePool e
            | Some buf \<Rightarrow> Put (bytePool e) buf = Inr (bytePool e'))
        \<and> conns e' = (conns e)(a \<mapsto> Connection_Reset c)
        \<and> cp_pool (connectionPool e') = a # cp_pool (connectionPool e)
        \<and> http_requestPool e' = http_requestPool e
      else
        conns e' = (conns e)(a \<mapsto> c\<lparr>conn_state := StateReading, readOffset := 0,
                                        conn_request := None, lastActive := now\<rparr>)
        \<and> http_requestPool e' = Request_Reset req # http_requestPool e
        \<and> connections e' = connections e
        \<and> poller_fds e' = poller_fds e
        \<and> open_fds e' = open_fds e
        \<and> requestPool e' = requestPool e
        \<and> contextPool e' = contextPool e
        \<and> bytePool e' = bytePool e
        \<and> connectionPool e' = connectionPool e)"
proof (cases "Proto req = ''HTTP/1.0'' \<or> Connection req = ''close''")
  case False
  then show ?thesis
    using c rq by (simp add: checkKeepAlive_def ReleaseRequest_def)
next
  case True
  have reset_idem: "Connection_Reset (Connection_Reset x) = Connection_Reset x" for x
    by (simp add: Connection_Reset_def)
  have reset_upd: "Connection_Reset (x\<lparr>conn_request := r, conn_context := k, readBuf := b\<rparr>)
      = Connection_Reset x" for x r k b
    by (simp add: Connection_Reset_def)
  show ?thesis
  proof (cases "readBuf c")
    case None
    with True c rq tab show ?thesis
      by (simp add: checkKeepAlive_def closeConnection_def release_request_def
          release_context_def release_buffer_def ConnectionPool_Put_def Let_def
          Connection_Reset_def SmartPool_Put_def split: option.splits)
  next
    case (Some buf)
    from Put_total [OF bp, of buf] obtain bp' where P: "Put (bytePool e) buf = Inr bp'"
      by blast
    with Some True c rq tab show ?thesis
      by (simp add: checkKeepAlive_def closeConnection_def release_request_def
          release_context_def release_buffer_def ConnectionPool_Put_def Let_def
          Connection_Reset_def SmartPool_Put_def split: option.splits)
  qed
qed


theorem checkKeepAlive_closes_or_resets_witness:
  "(\<exists>e'. checkKeepAlive (engine_after_request (handled_request ''HTTP/1.0'' [])) 0 100 = Inr e'
       \<and> connections e' 7 = None \<and> 7 \<notin> poller_fds e' \<and> 7 \<notin> open_fds e'
       \<and> sp_pool (requestPool e') = [engine_request_reset (handled_request ''HTTP/1.0'' [])]
       \<and> pools (bytePool e') = [[], [], [make_bytes 8192 8192], []]
       \<and> map_option conn_fd (conns e' 0) = Some (- 1)
       \<and> map_option readBuf (conns e' 0) = Some None
       \<and> cp_pool (connectionPool e') = [0])
   \<and> (\<exists>e'. checkKeepAlive (engine_after_request (handled_request ''HTTP/1.1'' ''keep-alive'')) 0 100
           = Inr e'
       \<and> connections e' 7 = Some 0 \<and> 7 \<in> poller_fds e' \<and> 7 \<in> open_fds e'
       \<and> map_option conn_state (conns e' 0) = Some StateReading
       \<and> map_option readOffset (conns e' 0) = Some 0
       \<and> map_option conn_request (conns e' 0) = Some None
       \<and> map_option lastActive (conns e' 0) = Some 100
       \<and> http_requestPool e' = [Request_Reset (handled_request ''HTTP/1.1'' ''keep-alive'')])"
proof -
  let ?c = "\<lambda>req. \<lparr>conn_fd = 7, conn_state = StateProcessing,
                  readBuf = Some (make_bytes 8192 8192), readOffset = 0,
                  conn_request = Some req, conn_context = None, lastActive = 50,
                  keepAlive = True, closeAfter = False\<rparr>"
  have bp: "length (pools (bytePool (engine_after_request req)))
      = length (sizes (bytePool (engine_after_request req)))" for req
    by (simp add: engine_after_request_def NewBytePool_def NewBytePoolWithSizes_def)
  have c: "conns (engine_after_request req) 0 = Some (?c req)" for req
    by (simp add: engine_after_request_def)
  have tab: "connections (engine_after_request req) (conn_fd (?c req)) = Some 0" for req
    by (simp add: engine_after_request_def)
  have rq: "conn_request (?c req) = Some req" for req
    by simp
  have put: "Put NewBytePool (make_bytes 8192 8192) = Inr bp'
      \<Longrightarrow> pools bp' = [[], [], [make_bytes 8192 8192], []]" for bp'
    by (auto simp: Put_def NewBytePool_def NewBytePoolWithSizes_def defaultSizes_def
        make_bytes_def cap_def)
  from checkKeepAlive_closes_or_resets [OF c rq tab bp, of "handled_request ''HTTP/1.0'' []" 100]
  obtain e1 where e1: "checkKeepAlive (engine_after_request (handled_request ''HTTP/1.0'' [])) 0 100
        = Inr e1"
    and "connections e1 = (connections (engine_after_request (handled_request ''HTTP/1.0'' [])))(7 := None)"
    and "poller_fds e1 = poller_fds (engine_after_request (handled_request ''HTTP/1.0'' [])) - {7}"
    and "open_fds e1 = open_fds (engine_after_request (handled_request ''HTTP/1.0'' [])) - {7}"
    and "sp_pool (requestPool e1)
          = apply_reset (resetFunc (requestPool (engine_after_request (handled_request ''HTTP/1.0'' []))))
              (handled_request ''HTTP/1.0'' [])
            # sp_pool (requestPool (engine_after_request (handled_request ''HTTP/1.0'' [])))"
    and "Put (bytePool (engine_after_request (handled_request ''HTTP/1.0'' []))) (make_bytes 8192 8192)
          = Inr (bytePool e1)"
    and "conns e1 = (conns (engine_after_request (handled_request ''HTTP/1.0'' [])))
          (0 \<mapsto> Connection_Reset (?c (handled_request ''HTTP/1.0'' [])))"
    and "cp_pool (connectionPool e1)
          = 0 # cp_pool (connectionPool (engine_after_request (handled_request ''HTTP/1.0'' [])))"
    by (auto simp: handled_request_def)
  then have first: "connections e1 7 = None \<and> 7 \<notin> poller_fds e1 \<and> 7 \<notin> open_fds e1
       \<and> sp_pool (requestPool e1) = [engine_request_reset (handled_request ''HTTP/1.0'' [])]
       \<and> pools (bytePool e1) = [[], [], [make_bytes 8192 8192], []]
       \<and> map_option conn_fd (conns e1 0) = Some (- 1)
       \<and> map_option readBuf (conns e1 0) = Some None
       \<and> cp_pool (connectionPool e1) = [0]"
    using put [of "bytePool e1"]
    by (simp add: engine_after_request_def apply_reset_def Connection_Reset_def)
  from checkKeepAlive_closes_or_resets [OF c rq tab bp, of "handled_request ''HTTP/1.1'' ''keep-alive''" 100]
  obtain e2 where e2: "checkKeepAlive (engine_after_request (handled_request ''HTTP/1.1'' ''keep-alive'')) 0 100
        = Inr e2"
    and "conns e2 = (conns (engine_after_request (handled_request ''HTTP/1.1'' ''keep-alive'')))
          (0 \<mapsto> (?c (handled_request ''HTTP/1.1'' ''keep-alive''))
               \<lparr>conn_state := StateReading, readOffset := 0, conn_request := None, lastActive := 100\<rparr>)"
    and "http_requestPool e2 = Request_Reset (handled_request ''HTTP/1.1'' ''keep-alive'')
          # http_requestPool (engine_after_request (handled_request ''HTTP/1.1'' ''keep-alive''))"
    and "connections e2 = connections (engine_after_request (handled_request ''HTTP/1.1'' ''keep-alive''))"
    and "poller_fds e2 = poller_fds (engine_after_request (handled_request ''HTTP/1.1'' ''keep-alive''))"
    and "open_fds e2 = open_fds (engine_after_request (handled_request ''HTTP/1.1'' ''keep-alive''))"
    by (auto simp: handled_request_def)
  then have second: "connections e2 7 = Some 0 \<and> 7 \<in> poller_fds e2 \<and> 7 \<in> open_fds e2
       \<and> map_option conn_state (conns e2 0) = Some StateReading
       \<and> map_option readOffset (conns e2 0) = Some 0
       \<and> map_option conn_request (conns e2 0) = Some None
       \<and> map_option lastActive (conns e2 0) = Some 100
       \<and> http_requestPool e2 = [Request_Reset (handled_request ''HTTP/1.1'' ''keep-alive'')]"
    by (simp add: engine_after_request_def)
  from e1 first e2 second show ?thesis
    by blast
qed

end
